theory Spec2Isabelle
  imports Main "HOL-Library.Word" "HOL-Library.Log_Nat" "HOL-Library.Char_ord"
    "HOL-Library.List_Lexorder"
begin

section \<open>Optical-flow datasets of torchvision (\<open>torchvision/datasets/_optical_flow.py\<close>)\<close>

text \<open>
  The module has three dataset classes (\<open>Sintel\<close>, \<open>KittiFlow\<close>, \<open>FlyingChairs\<close>) over an
  abstract base \<open>FlowDataset\<close>, and two readers of flow files (\<open>_read_flo\<close> and
  \<open>_read_16bits_png_with_flow_and_valid_mask\<close>). The embedding below follows the source
  function by function. Exceptions are values of \<open>py_error\<close>, a result is
  \<open>py_error + 'a\<close> with \<open>Inl\<close> the exception. The operating system and the libraries
  the module calls (\<open>os.listdir\<close>, \<open>glob\<close>, \<open>os.path.exists\<close>, \<open>open\<close>,
  \<open>np.loadtxt\<close>, \<open>PIL.Image.open\<close>, \<open>_read_png_16\<close>) are the fields of a record
  \<open>world\<close>, which every function that touches the disk takes as its first argument.
\<close>

subsection \<open>Exceptions, paths, Python indexing\<close>

datatype py_error =
    ValueError string
  | FileNotFoundError string
  | IndexError string
  | TypeError string
  | OSError string
  | OverflowError string

type_synonym path = string

text \<open>\<open>Path(a) / b\<close> followed by \<open>str\<close>, for a relative component \<open>b\<close>.\<close>

definition path_join :: "path \<Rightarrow> path \<Rightarrow> path" where
  "path_join a b = a @ ''/'' @ b"

text \<open>\<open>xs[i]\<close> on a Python list: a negative index counts from the end, an index out of
  range raises \<open>IndexError\<close>.\<close>

definition py_index :: "'a list \<Rightarrow> int \<Rightarrow> py_error + 'a" where
  "py_index xs i =
     (let n = int (length xs); j = (if i < 0 then i + n else i)
      in if 0 \<le> j \<and> j < n then Inr (xs ! nat j)
         else Inl (IndexError ''list index out of range''))"

text \<open>\<open>a[i]\<close> on a one-dimensional numpy array: the same, with numpy's message.\<close>

definition np_index :: "'a list \<Rightarrow> int \<Rightarrow> py_error + 'a" where
  "np_index xs i =
     (let n = int (length xs); j = (if i < 0 then i + n else i)
      in if 0 \<le> j \<and> j < n then Inr (xs ! nat j)
         else Inl (IndexError ''index is out of bounds for axis 0''))"

text \<open>What \<open>np.loadtxt\<close> returns for a file of integers: the array is squeezed, so a file
  of one value gives an array of no dimension, one column or one row of several values a
  one-dimensional array (an empty file the empty one), and several rows of several columns a
  two-dimensional array, whose rows have at least two elements: the first, the second and
  the others.\<close>

datatype ndarray =
    Array0 int
  | Array1 "int list"
  | Array2 "(int \<times> int \<times> int list) list"

text \<open>\<open>a[i]\<close> on such an array is a number, or a row; an array of no dimension cannot be
  indexed.\<close>

datatype np_item = Scalar int | Row "int list"

definition np_getitem :: "ndarray \<Rightarrow> int \<Rightarrow> py_error + np_item" where
  "np_getitem a i =
     (case a of
        Array0 v \<Rightarrow> Inl (IndexError ''too many indices for array: array is 0-dimensional, but 1 were indexed'')
      | Array1 xs \<Rightarrow> (case np_index xs i of Inl e \<Rightarrow> Inl e | Inr v \<Rightarrow> Inr (Scalar v))
      | Array2 rows \<Rightarrow>
          (case np_index rows i of
             Inl e \<Rightarrow> Inl e
           | Inr (x, y, zs) \<Rightarrow> Inr (Row (x # y # zs))))"

text \<open>The truth value of an array of booleans, as a condition: that of its element when it
  has one, false when it has none, and a \<open>ValueError\<close> when it has several.\<close>

definition truth_value :: "bool list \<Rightarrow> py_error + bool" where
  "truth_value bs =
     (case bs of
        [] \<Rightarrow> Inr False
      | [b] \<Rightarrow> Inr b
      | _ \<Rightarrow> Inl (ValueError
          ''The truth value of an array with more than one element is ambiguous''))"

text \<open>Modelled from the spec: \<open>verify_str_arg\<close> lives in \<open>torchvision/datasets/utils.py\<close>,
  which is not among the sources; the specification describes it as an eager allow-list
  validation of the \<open>split\<close> and \<open>pass_name\<close> arguments that fails with a configuration
  error (a \<open>ValueError\<close>).\<close>

definition verify_str_arg :: "string \<Rightarrow> string \<Rightarrow> string list \<Rightarrow> py_error + unit" where
  "verify_str_arg val arg valid_values =
     (if val \<in> set valid_values then Inr ()
      else Inl (ValueError (''Unknown value for argument '' @ arg)))"

subsection \<open>IEEE binary32 values\<close>

text \<open>
  A float32 is modelled by the number it denotes: a rational, an infinity or NaN (the sign
  of zero is not kept; no comparison in the module depends on it). \<open>f32_decode\<close> reads a
  bit pattern, \<open>f32_of_rat\<close> rounds a rational to the nearest binary32 value, ties to even,
  which is the rounding of every float32 operation of numpy and torch.
\<close>

datatype f32 = Fin rat | PInf | NInf | NaN

definition pow2 :: "int \<Rightarrow> rat" where
  "pow2 k = (if 0 \<le> k then 2 ^ nat k else 1 / 2 ^ nat (- k))"

text \<open>\<open>ilog2 q\<close> is the exponent \<open>e\<close> with \<open>2^e \<le> |q| < 2^(e+1)\<close>, for \<open>q \<noteq> 0\<close>.\<close>

definition ilog2 :: "rat \<Rightarrow> int" where
  "ilog2 q =
     (let ab = quotient_of \<bar>q\<bar>; d = bitlen (fst ab) - bitlen (snd ab)
      in if pow2 d \<le> \<bar>q\<bar> then d else d - 1)"

definition round_half_even :: "rat \<Rightarrow> int" where
  "round_half_even x =
     (let f = \<lfloor>x\<rfloor>; r = x - of_int f
      in if r < 1 / 2 then f
         else if 1 / 2 < r then f + 1
         else if even f then f else f + 1)"

definition f32_of_rat :: "rat \<Rightarrow> f32" where
  "f32_of_rat q =
     (if q = 0 then Fin 0
      else let e = max (ilog2 q) (- 126);
               u = pow2 (e - 23);
               r = of_int (round_half_even (q / u)) * u
           in if pow2 128 \<le> \<bar>r\<bar> then (if 0 < q then PInf else NInf) else Fin r)"

text \<open>The fields of a bit pattern: the sign is bit 31, the exponent bits 30 to 23, the
  mantissa bits 22 to 0.\<close>

definition f32_decode :: "32 word \<Rightarrow> f32" where
  "f32_decode w =
     (let n = unat w;
          s = (n div 2 ^ 31 = 1);
          e = (n div 2 ^ 23) mod 2 ^ 8;
          m = n mod 2 ^ 23;
          sg = (if s then - 1 else 1)
      in if e = 255 then (if m = 0 then (if s then NInf else PInf) else NaN)
         else if e = 0 then Fin (sg * of_nat m * pow2 (- 149))
         else Fin (sg * of_nat (2 ^ 23 + m) * pow2 (int e - 150)))"

text \<open>Conversion of an integer tensor element (\<open>.to(torch.float32)\<close>), subtraction and
  division of float32 values. The operands in this module are always finite; the other cases
  follow IEEE 754, except that a zero divisor is taken without its sign.\<close>

definition f32_of_int :: "int \<Rightarrow> f32" where
  "f32_of_int n = f32_of_rat (of_int n)"

fun f32_sub :: "f32 \<Rightarrow> f32 \<Rightarrow> f32" where
  "f32_sub (Fin a) (Fin b) = f32_of_rat (a - b)"
| "f32_sub NaN _ = NaN"
| "f32_sub _ NaN = NaN"
| "f32_sub PInf PInf = NaN"
| "f32_sub NInf NInf = NaN"
| "f32_sub PInf _ = PInf"
| "f32_sub NInf _ = NInf"
| "f32_sub (Fin a) PInf = NInf"
| "f32_sub (Fin a) NInf = PInf"

fun f32_div :: "f32 \<Rightarrow> f32 \<Rightarrow> f32" where
  "f32_div (Fin a) (Fin b) =
     (if b = 0 then (if a = 0 then NaN else if 0 < a then PInf else NInf)
      else f32_of_rat (a / b))"
| "f32_div NaN _ = NaN"
| "f32_div _ NaN = NaN"
| "f32_div (Fin a) _ = Fin 0"
| "f32_div PInf (Fin b) = (if 0 \<le> b then PInf else NInf)"
| "f32_div NInf (Fin b) = (if 0 \<le> b then NInf else PInf)"
| "f32_div PInf PInf = NaN"
| "f32_div PInf NInf = NaN"
| "f32_div NInf PInf = NaN"
| "f32_div NInf NInf = NaN"

subsection \<open>The outside world\<close>

text \<open>
  \<^item> \<open>listdir\<close>: \<open>os.listdir\<close>, the entries of a directory in the order the system gives them;
  \<^item> \<open>glob\<close>: \<open>glob.glob\<close> of a pattern, in the order the system gives the matches;
  \<^item> \<open>path_exists\<close>: \<open>os.path.exists\<close>;
  \<^item> \<open>open_rb\<close>: \<open>open(file_name, "rb")\<close>, the bytes of the file;
  \<^item> \<open>loadtxt\<close>: \<open>np.loadtxt(..., dtype=np.int32)\<close>, the array of the integers of a file;
  \<^item> \<open>image_open\<close>: \<open>PIL.Image.open\<close>, an image object of some type \<open>'img\<close>;
  \<^item> \<open>read_png_16\<close>: \<open>torchvision.io.image._read_png_16\<close>, which is not among the sources;
    it decodes a PNG of 16 bits per channel into an integer tensor of shape \<open>(C, H, W)\<close>,
    here a list of channels, each a list of rows of 16-bit values.
\<close>

record 'img world =
  listdir :: "path \<Rightarrow> py_error + path list"
  glob :: "path \<Rightarrow> path list"
  path_exists :: "path \<Rightarrow> bool"
  open_rb :: "path \<Rightarrow> py_error + 8 word list"
  loadtxt :: "path \<Rightarrow> py_error + ndarray"
  image_open :: "path \<Rightarrow> py_error + 'img"
  read_png_16 :: "path \<Rightarrow> py_error + 16 word list list list"

subsection \<open>\<open>_read_flo\<close>\<close>

text \<open>A flow read from a \<open>.flo\<close> file is the array \<open>data.reshape(2, h, w)\<close>: its shape and
  its float32 elements, kept as their bit patterns. A flow read from a KITTI PNG is a list
  of two channels of float32 values.\<close>

datatype flowv =
    FloArray "nat list" "32 word list"
  | PngFlow "f32 list list list"

type_synonym validv = "f32 list list"

text \<open>Four bytes of the file as a 32-bit item, the first byte the lowest.\<close>

definition le32 :: "8 word \<Rightarrow> 8 word \<Rightarrow> 8 word \<Rightarrow> 8 word \<Rightarrow> 32 word" where
  "le32 b0 b1 b2 b3 =
     word_of_nat (unat b0 + 2 ^ 8 * unat b1 + 2 ^ 16 * unat b2 + 2 ^ 24 * unat b3)"

fun items32 :: "8 word list \<Rightarrow> 32 word list" where
  "items32 (b0 # b1 # b2 # b3 # bs) = le32 b0 b1 b2 b3 # items32 bs"
| "items32 _ = []"

text \<open>\<open>np.fromfile(f, dtype, count)\<close> for a dtype of four bytes, on a little-endian machine:
  it reads \<open>count\<close> items, or as many whole items as the file still has when there are fewer
  or when \<open>count\<close> is negative, and leaves the file position after them. The result is the
  items read and the bytes that remain.\<close>

definition fromfile32 :: "int \<Rightarrow> 8 word list \<Rightarrow> 32 word list \<times> 8 word list" where
  "fromfile32 count bs =
     (let avail = length bs div 4;
          n = (if count < 0 then avail else min (nat count) avail)
      in (take n (items32 bs), drop (4 * n) bs))"

text \<open>\<open>data.reshape(2, h, w)\<close>: a negative dimension is the unknown one, and there may be only
  one; the known dimensions must divide, or equal, the number of elements.\<close>

definition reshape :: "int list \<Rightarrow> 32 word list \<Rightarrow> py_error + flowv" where
  "reshape dims data =
     (let unknown = filter (\<lambda>d. d < 0) dims;
          known = prod_list (filter (\<lambda>d. 0 \<le> d) dims);
          size = int (length data)
      in if 1 < length unknown then Inl (ValueError ''can only specify one unknown dimension'')
         else if unknown \<noteq> [] then
           (if known = 0 \<or> size mod known \<noteq> 0
            then Inl (ValueError ''cannot reshape array'')
            else Inr (FloArray (map (\<lambda>d. if d < 0 then nat (size div known) else nat d) dims) data))
         else if size \<noteq> known then Inl (ValueError ''cannot reshape array'')
         else Inr (FloArray (map nat dims) data))"

definition flo_magic :: rat where
  "flo_magic = 202021.25"

text \<open>The test \<open>202021.25 != magic\<close> compares with an array of at most one element. On an
  empty array (a file shorter than four bytes) the comparison is an empty array, which is
  false as a condition; the conversion \<open>int(...)\<close> of an empty array then raises
  \<open>TypeError\<close>. The width and the height are signed 32-bit integers, their product is a
  Python integer, which \<open>np.fromfile\<close> takes as a signed 64-bit count: the one product that
  does not fit, of the width and the height \<open>- 2 ^ 31\<close>, raises \<open>OverflowError\<close>. Memory is
  not a limit here: an allocation of \<open>count\<close> items never fails.\<close>

definition read_flo :: "'img world \<Rightarrow> path \<Rightarrow> py_error + flowv" where
  "read_flo wd file_name =
     (case open_rb wd file_name of
        Inl e \<Rightarrow> Inl e
      | Inr f \<Rightarrow>
          (let (magic, f1) = fromfile32 1 f
           in if (case magic of [] \<Rightarrow> False | m # _ \<Rightarrow> Fin flo_magic \<noteq> f32_decode m)
              then Inl (ValueError ''Magic number incorrect. Invalid .flo file'')
              else
                (let (wa, f2) = fromfile32 1 f1
                 in (case wa of
                       [] \<Rightarrow> Inl (TypeError ''only size-1 arrays can be converted to Python scalars'')
                     | wv # _ \<Rightarrow>
                         (let (ha, f3) = fromfile32 1 f2
                          in (case ha of
                                [] \<Rightarrow>
                                  Inl (TypeError ''only size-1 arrays can be converted to Python scalars'')
                              | hv # _ \<Rightarrow>
                                  (let w = sint wv; h = sint hv
                                   in if 2 ^ 63 \<le> 2 * w * h
                                      then Inl (OverflowError
                                        ''Python int too large to convert to C ssize_t'')
                                      else
                                        (let (data, f4) = fromfile32 (2 * w * h) f3
                                         in reshape [2, h, w] data))))))))"

subsection \<open>\<open>_read_16bits_png_with_flow_and_valid_mask\<close>\<close>

text \<open>The tensor is converted to float32, channels 0 and 1 are the flow, channel 2 is the
  validity; the flow is \<open>(flow - 2 ** 15) / 64\<close>, both scalars being converted to float32.
  Indexing channel 2 of a tensor with fewer than three channels raises \<open>IndexError\<close>.\<close>

definition read_16bits_png_with_flow_and_valid_mask ::
  "'img world \<Rightarrow> path \<Rightarrow> py_error + (flowv \<times> validv)" where
  "read_16bits_png_with_flow_and_valid_mask wd file_name =
     (case read_png_16 wd file_name of
        Inl e \<Rightarrow> Inl e
      | Inr t \<Rightarrow>
          (let flow_and_valid = map (map (map (\<lambda>x. f32_of_int (uint x)))) t
           in if length flow_and_valid \<le> 2
              then Inl (IndexError ''index 2 is out of bounds for dimension 0'')
              else
                (let flow = take 2 flow_and_valid;
                     valid = flow_and_valid ! 2;
                     flow' = map (map (map (\<lambda>x. f32_div (f32_sub x (f32_of_int (2 ^ 15)))
                                                          (f32_of_int 64)))) flow
                 in Inr (PngFlow flow', valid))))"

subsection \<open>\<open>FlowDataset\<close>\<close>

text \<open>
  The three classes differ in their constructor, in \<open>_read_flow\<close> and in the class
  attribute \<open>_has_builtin_flow_mask\<close>; an instance records which class it is of. Its
  state is the two lists and the transform. An entry \<open>[img1, img2]\<close> of \<open>_image_list\<close> is
  a pair. A transform is a callable object with a state of its own (a random generator, a
  counter): called on \<open>(img1, img2, flow, valid)\<close>, where \<open>None\<close> is Python's \<open>None\<close>, in a
  state, it returns the transformed tuple and its next state. It does not reach the instance.
\<close>

datatype variant = Sintel | KittiFlow | FlyingChairs

type_synonym 'img sample4 = "'img \<times> 'img \<times> flowv option \<times> validv option"

type_synonym ('img, 's) transform = "'img sample4 \<Rightarrow> 's \<Rightarrow> 'img sample4 \<times> 's"

record ('img, 's) dataset =
  variant :: variant
  transforms :: "('img, 's) transform option"
  flow_list :: "path list"
  image_list :: "(path \<times> path) list"

datatype 'img sample =
    Tuple3 'img 'img "flowv option"
  | Tuple4 'img 'img "flowv option" "validv option"

fun arity :: "'img sample \<Rightarrow> nat" where
  "arity (Tuple3 _ _ _) = 3"
| "arity (Tuple4 _ _ _ _) = 4"

fun has_builtin_flow_mask :: "variant \<Rightarrow> bool" where
  "has_builtin_flow_mask KittiFlow = True"
| "has_builtin_flow_mask _ = False"

text \<open>\<open>FlowDataset.__init__\<close>: both lists start empty.\<close>

definition FlowDataset_init ::
  "variant \<Rightarrow> ('img, 's) transform option \<Rightarrow> ('img, 's) dataset" where
  "FlowDataset_init v t = \<lparr>variant = v, transforms = t, flow_list = [], image_list = []\<rparr>"

text \<open>\<open>_read_flow\<close> returns the flow, or the pair of the flow and the mask.\<close>

datatype flow_read = FlowOnly flowv | FlowAndValid flowv validv

fun read_flow :: "'img world \<Rightarrow> variant \<Rightarrow> path \<Rightarrow> py_error + flow_read" where
  "read_flow wd KittiFlow file_name =
     (case read_16bits_png_with_flow_and_valid_mask wd file_name of
        Inl e \<Rightarrow> Inl e
      | Inr (flow, valid) \<Rightarrow> Inr (FlowAndValid flow valid))"
| "read_flow wd _ file_name =
     (case read_flo wd file_name of Inl e \<Rightarrow> Inl e | Inr flow \<Rightarrow> Inr (FlowOnly flow))"

text \<open>What a method of an instance can read and change while it runs: the instance (its
  fields can be assigned), the files, the state of the transform, and the files it has opened,
  in the order of the calls of \<open>open\<close>.\<close>

record ('img, 's) pystate =
  self :: "('img, 's) dataset"
  disk :: "'img world"
  transform_state :: 's
  opened :: "path list"

text \<open>\<open>_read_img\<close> opens the file and returns the image; \<open>_read_flow\<close> opens the file and
  decodes it.\<close>

definition read_img ::
  "path \<Rightarrow> ('img, 's) pystate \<Rightarrow> (py_error + 'img) \<times> ('img, 's) pystate" where
  "read_img file_name s =
     (image_open (disk s) file_name, s\<lparr>opened := opened s @ [file_name]\<rparr>)"

definition read_flow_method ::
  "path \<Rightarrow> ('img, 's) pystate \<Rightarrow> (py_error + flow_read) \<times> ('img, 's) pystate" where
  "read_flow_method file_name s =
     (read_flow (disk s) (variant (self s)) file_name, s\<lparr>opened := opened s @ [file_name]\<rparr>)"

text \<open>Lines 49 to 56 of \<open>__getitem__\<close>: the flow and the mask of an index. The two branches
  that raise \<open>TypeError\<close> stand for a reader whose result does not fit the class attribute;
  no class of the module reaches them.\<close>

definition getitem_flow ::
  "int \<Rightarrow> ('img, 's) pystate
     \<Rightarrow> (py_error + (flowv option \<times> validv option)) \<times> ('img, 's) pystate" where
  "getitem_flow index s =
     (if flow_list (self s) \<noteq> [] then
        (case py_index (flow_list (self s)) index of
           Inl e \<Rightarrow> (Inl e, s)
         | Inr file_name \<Rightarrow>
             (case read_flow_method file_name s of
                (Inl e, s1) \<Rightarrow> (Inl e, s1)
              | (Inr r, s1) \<Rightarrow>
                  (if has_builtin_flow_mask (variant (self s1)) then
                     (case r of
                        FlowAndValid flow valid \<Rightarrow> (Inr (Some flow, Some valid), s1)
                      | FlowOnly flow \<Rightarrow> (Inl (TypeError ''cannot unpack''), s1))
                   else
                     (case r of
                        FlowOnly flow \<Rightarrow> (Inr (Some flow, None), s1)
                      | FlowAndValid flow valid \<Rightarrow> (Inl (TypeError ''not a flow''), s1)))))
      else (Inr (None, None), s))"

text \<open>Lines 58 and 59: the call of the transform, when there is one.\<close>

definition apply_transforms ::
  "'img sample4 \<Rightarrow> ('img, 's) pystate \<Rightarrow> 'img sample4 \<times> ('img, 's) pystate" where
  "apply_transforms x s =
     (case transforms (self s) of
        None \<Rightarrow> (x, s)
      | Some t \<Rightarrow> (case t x (transform_state s) of (y, ts) \<Rightarrow> (y, s\<lparr>transform_state := ts\<rparr>)))"

text \<open>\<open>__getitem__\<close> and \<open>__len__\<close> run in a state and return their result with the state they
  leave. Every statement reads the instance from the state it runs in.\<close>

definition getitem ::
  "int \<Rightarrow> ('img, 's) pystate \<Rightarrow> (py_error + 'img sample) \<times> ('img, 's) pystate" where
  "getitem index s =
     (case py_index (image_list (self s)) index of
        Inl e \<Rightarrow> (Inl e, s)
      | Inr pair1 \<Rightarrow>
          (case read_img (fst pair1) s of
             (Inl e, s1) \<Rightarrow> (Inl e, s1)
           | (Inr img1, s1) \<Rightarrow>
               (case py_index (image_list (self s1)) index of
                  Inl e \<Rightarrow> (Inl e, s1)
                | Inr pair2 \<Rightarrow>
                    (case read_img (snd pair2) s1 of
                       (Inl e, s2) \<Rightarrow> (Inl e, s2)
                     | (Inr img2, s2) \<Rightarrow>
                         (case getitem_flow index s2 of
                            (Inl e, s3) \<Rightarrow> (Inl e, s3)
                          | (Inr (flow, valid), s3) \<Rightarrow>
                              (case apply_transforms (img1, img2, flow, valid) s3 of
                                 ((img1', img2', flow', valid'), s4) \<Rightarrow>
                                   (if has_builtin_flow_mask (variant (self s4))
                                    then (Inr (Tuple4 img1' img2' flow' valid'), s4)
                                    else (Inr (Tuple3 img1' img2' flow'), s4))))))))"

definition len :: "('img, 's) dataset \<Rightarrow> nat \<times> ('img, 's) dataset" where
  "len ds = (length (image_list ds), ds)"

subsection \<open>\<open>Sintel.__init__\<close>\<close>

text \<open>The inner loop \<open>for i in range(len(image_list) - 1)\<close> appends the pair of the frames
  \<open>i\<close> and \<open>i + 1\<close>; the range is empty when the list is.\<close>

definition consecutive_pairs :: "path list \<Rightarrow> (path \<times> path) list" where
  "consecutive_pairs image_list' =
     map (\<lambda>i. (image_list' ! i, image_list' ! (i + 1)))
       [0 ..< nat (int (length image_list') - 1)]"

text \<open>The loop over the scenes, from the instance built so far.\<close>

definition Sintel_frames :: "'img world \<Rightarrow> path \<Rightarrow> path \<Rightarrow> path list" where
  "Sintel_frames wd image_root scene = glob wd (path_join (path_join image_root scene) ''*.png'')"

definition Sintel_flows :: "'img world \<Rightarrow> path \<Rightarrow> path \<Rightarrow> path list" where
  "Sintel_flows wd flow_root scene = glob wd (path_join (path_join flow_root scene) ''*.flo'')"

fun Sintel_scenes ::
  "'img world \<Rightarrow> path \<Rightarrow> path \<Rightarrow> string \<Rightarrow> path list \<Rightarrow> ('img, 's) dataset \<Rightarrow> ('img, 's) dataset" where
  "Sintel_scenes wd image_root flow_root split [] ds = ds"
| "Sintel_scenes wd image_root flow_root split (scene # scenes) ds =
     (let image_list' = sort (Sintel_frames wd image_root scene);
          ds1 = ds\<lparr>image_list := image_list ds @ consecutive_pairs image_list'\<rparr>;
          ds2 = (if split = ''train''
                 then ds1\<lparr>flow_list := flow_list ds1 @ sort (Sintel_flows wd flow_root scene)\<rparr>
                 else ds1)
      in Sintel_scenes wd image_root flow_root split scenes ds2)"

definition Sintel_image_root :: "path \<Rightarrow> string \<Rightarrow> string \<Rightarrow> path" where
  "Sintel_image_root root_dir split pass_name =
     path_join (path_join (path_join root_dir ''Sintel'')
       (if split = ''train'' then ''training'' else split)) pass_name"

definition Sintel_flow_root :: "path \<Rightarrow> path" where
  "Sintel_flow_root root_dir = path_join (path_join (path_join root_dir ''Sintel'') ''training'') ''flow''"

definition Sintel_init ::
  "'img world \<Rightarrow> path \<Rightarrow> string \<Rightarrow> string \<Rightarrow> ('img, 's) transform option
     \<Rightarrow> py_error + ('img, 's) dataset" where
  "Sintel_init wd root_dir split pass_name t =
     (case verify_str_arg split ''split'' [''train'', ''test''] of
        Inl e \<Rightarrow> Inl e
      | Inr _ \<Rightarrow>
          (case verify_str_arg pass_name ''pass_name'' [''clean'', ''final''] of
             Inl e \<Rightarrow> Inl e
           | Inr _ \<Rightarrow>
               (case listdir wd (Sintel_image_root root_dir split pass_name) of
                  Inl e \<Rightarrow> Inl e
                | Inr scenes \<Rightarrow>
                    Inr (Sintel_scenes wd (Sintel_image_root root_dir split pass_name)
                           (Sintel_flow_root root_dir) split scenes (FlowDataset_init Sintel t)))))"

subsection \<open>\<open>KittiFlow.__init__\<close>\<close>

definition Kitti_root :: "path \<Rightarrow> string \<Rightarrow> path" where
  "Kitti_root root_dir split = path_join (path_join root_dir ''Kitti'') (split @ ''ing'')"

text \<open>The three globs of the constructor, as the system returns them.\<close>

definition Kitti_glob_10 :: "'img world \<Rightarrow> path \<Rightarrow> string \<Rightarrow> path list" where
  "Kitti_glob_10 wd root_dir split =
     glob wd (path_join (path_join (Kitti_root root_dir split) ''image_2'') ''*_10.png'')"

definition Kitti_glob_11 :: "'img world \<Rightarrow> path \<Rightarrow> string \<Rightarrow> path list" where
  "Kitti_glob_11 wd root_dir split =
     glob wd (path_join (path_join (Kitti_root root_dir split) ''image_2'') ''*_11.png'')"

definition Kitti_glob_flow :: "'img world \<Rightarrow> path \<Rightarrow> string \<Rightarrow> path list" where
  "Kitti_glob_flow wd root_dir split =
     glob wd (path_join (path_join (Kitti_root root_dir split) ''flow_occ'') ''*_10.png'')"

definition Kitti_missing :: string where
  "Kitti_missing =
     ''Could not find the Kitti flow images. Please make sure the directory structure is correct.''"

definition KittiFlow_init ::
  "'img world \<Rightarrow> path \<Rightarrow> string \<Rightarrow> ('img, 's) transform option
     \<Rightarrow> py_error + ('img, 's) dataset" where
  "KittiFlow_init wd root_dir split t =
     (case verify_str_arg split ''split'' [''train'', ''test''] of
        Inl e \<Rightarrow> Inl e
      | Inr _ \<Rightarrow>
          (let images1 = sort (Kitti_glob_10 wd root_dir split);
               images2 = sort (Kitti_glob_11 wd root_dir split)
           in if images1 = [] \<or> images2 = []
              then Inl (FileNotFoundError Kitti_missing)
              else
                (let ds = (FlowDataset_init KittiFlow t)\<lparr>image_list := zip images1 images2\<rparr>
                 in if split = ''train''
                    then Inr (ds\<lparr>flow_list := sort (Kitti_glob_flow wd root_dir split)\<rparr>)
                    else Inr ds)))"

subsection \<open>\<open>FlyingChairs.__init__\<close>\<close>

definition retained :: "string \<Rightarrow> int \<Rightarrow> bool" where
  "retained split split_id =
     ((split = ''train'' \<and> split_id = 1) \<or> (split = ''val'' \<and> split_id = 2))"

text \<open>The condition of line 254 on \<open>split_id = split_list[i]\<close>. On a number it is
  \<open>retained\<close>. On a row, \<open>split_id == 1\<close> is the row of the comparisons, and \<open>or\<close> and \<open>if\<close>
  take its truth value.\<close>

definition split_condition :: "string \<Rightarrow> np_item \<Rightarrow> py_error + bool" where
  "split_condition split split_id =
     (case split_id of
        Scalar v \<Rightarrow> Inr (retained split v)
      | Row vs \<Rightarrow>
          (if split = ''train'' then truth_value (map (\<lambda>v. v = 1) vs)
           else if split = ''val'' then truth_value (map (\<lambda>v. v = 2) vs)
           else Inr False))"

text \<open>The loop \<open>for i in range(len(flows))\<close>, over the indices still to visit, from the
  instance built so far. Each of the three indexings can raise, and so can the condition.\<close>

fun FlyingChairs_loop ::
  "string \<Rightarrow> ndarray \<Rightarrow> path list \<Rightarrow> path list \<Rightarrow> nat list \<Rightarrow> ('img, 's) dataset
     \<Rightarrow> py_error + ('img, 's) dataset" where
  "FlyingChairs_loop split split_list images flows [] ds = Inr ds"
| "FlyingChairs_loop split split_list images flows (i # rest) ds =
     (case np_getitem split_list (int i) of
        Inl e \<Rightarrow> Inl e
      | Inr split_id \<Rightarrow>
          (case split_condition split split_id of
             Inl e \<Rightarrow> Inl e
           | Inr c \<Rightarrow>
               (if c then
                  (case py_index flows (int i) of
                     Inl e \<Rightarrow> Inl e
                   | Inr flow \<Rightarrow>
                       (case py_index images (2 * int i) of
                          Inl e \<Rightarrow> Inl e
                        | Inr img1 \<Rightarrow>
                            (case py_index images (2 * int i + 1) of
                               Inl e \<Rightarrow> Inl e
                             | Inr img2 \<Rightarrow>
                                 FlyingChairs_loop split split_list images flows rest
                                   (ds\<lparr>flow_list := flow_list ds @ [flow],
                                       image_list := image_list ds @ [(img1, img2)]\<rparr>))))
                else FlyingChairs_loop split split_list images flows rest ds)))"

definition FlyingChairs_root :: "path \<Rightarrow> path" where
  "FlyingChairs_root root_dir = path_join root_dir ''FlyingChairs''"

definition FlyingChairs_glob_ppm :: "'img world \<Rightarrow> path \<Rightarrow> path list" where
  "FlyingChairs_glob_ppm wd root_dir =
     glob wd (path_join (path_join (FlyingChairs_root root_dir) ''data'') ''*.ppm'')"

definition FlyingChairs_glob_flo :: "'img world \<Rightarrow> path \<Rightarrow> path list" where
  "FlyingChairs_glob_flo wd root_dir =
     glob wd (path_join (path_join (FlyingChairs_root root_dir) ''data'') ''*.flo'')"

definition split_file :: "path \<Rightarrow> path" where
  "split_file root_dir = path_join (FlyingChairs_root root_dir) ''FlyingChairs_train_val.txt''"

definition split_file_missing :: string where
  "split_file_missing =
     ''The FlyingChairs_train_val.txt file was not found - please download it from the dataset page (see docstring).''"

definition FlyingChairs_init ::
  "'img world \<Rightarrow> path \<Rightarrow> string \<Rightarrow> ('img, 's) transform option
     \<Rightarrow> py_error + ('img, 's) dataset" where
  "FlyingChairs_init wd root_dir split t =
     (case verify_str_arg split ''split'' [''train'', ''val''] of
        Inl e \<Rightarrow> Inl e
      | Inr _ \<Rightarrow>
          (let images = sort (FlyingChairs_glob_ppm wd root_dir);
               flows = sort (FlyingChairs_glob_flo wd root_dir)
           in if \<not> path_exists wd (split_file root_dir)
              then Inl (FileNotFoundError split_file_missing)
              else
                (case loadtxt wd (split_file root_dir) of
                   Inl e \<Rightarrow> Inl e
                 | Inr split_list \<Rightarrow>
                     FlyingChairs_loop split split_list images flows [0 ..< length flows]
                       (FlowDataset_init FlyingChairs t))))"

subsection \<open>The invariant of the two lists\<close>

definition flow_invariant :: "('img, 's) dataset \<Rightarrow> bool" where
  "flow_invariant ds \<longleftrightarrow> flow_list ds = [] \<or> length (flow_list ds) = length (image_list ds)"

text \<open>The indexings of one round of the loop of \<open>FlyingChairs.__init__\<close> are in range.\<close>

definition index_ok :: "string \<Rightarrow> int list \<Rightarrow> path list \<Rightarrow> path list \<Rightarrow> nat \<Rightarrow> bool" where
  "index_ok split split_list images flows i \<longleftrightarrow>
     i < length split_list \<and>
     (retained split (split_list ! i) \<longrightarrow> i < length flows \<and> 2 * i + 2 \<le> length images)"

subsection \<open>Example directory trees\<close>

text \<open>Small worlds on which the functions are run: one without any file, a KITTI tree, Sintel
  trees (under \<open>/d\<close> with as many flows as pairs, under \<open>/odd\<close> with fewer, under
  \<open>/empty\<close> with a scene directory that holds no frame), FlyingChairs
  trees (under \<open>/d\<close> one split entry per flow, under \<open>/odd\<close> one entry more, under
  \<open>/short\<close> one entry fewer, under \<open>/single\<close> a split file of one value, under \<open>/wide\<close> a
  split file of two rows and two columns for five flows). An image object is the name of its
  file.\<close>

definition empty_world :: "path world" where
  "empty_world =
     \<lparr>listdir = (\<lambda>p. Inl (FileNotFoundError p)),
      glob = (\<lambda>p. []),
      path_exists = (\<lambda>p. False),
      open_rb = (\<lambda>p. Inl (FileNotFoundError p)),
      loadtxt = (\<lambda>p. Inl (OSError p)),
      image_open = (\<lambda>p. Inr p),
      read_png_16 = (\<lambda>p. Inl (OSError p))\<rparr>"

definition kitti_world :: "path world" where
  "kitti_world = empty_world
     \<lparr>glob := (\<lambda>p.
        if p = ''/d/Kitti/training/image_2/*_10.png'' then [''k/1_10.png'', ''k/0_10.png'']
        else if p = ''/d/Kitti/training/image_2/*_11.png'' then [''k/0_11.png'', ''k/1_11.png'']
        else if p = ''/d/Kitti/training/flow_occ/*_10.png'' then [''f/0_10.png'', ''f/1_10.png'']
        else []),
      read_png_16 := (\<lambda>p.
        if p = ''f/0_10.png'' then Inr [[[32832]], [[32640]], [[1]]]
        else if p = ''f/1_10.png'' then Inr [[[0]], [[65535]], [[2]]]
        else Inl (OSError p))\<rparr>"

definition good_flo :: "8 word list" where
  "good_flo = [0x50, 0x49, 0x45, 0x48, 1, 0, 0, 0, 1, 0, 0, 0, 0, 0, 0x80, 0x3F, 0, 0, 0, 0xC0]"

definition bad_flo :: "8 word list" where
  "bad_flo = [0x50, 0x49, 0x45, 0x49, 1, 0, 0, 0, 1, 0, 0, 0, 0, 0, 0x80, 0x3F, 0, 0, 0, 0xC0]"

definition sintel_world :: "path world" where
  "sintel_world = empty_world
     \<lparr>listdir := (\<lambda>p.
        if p = ''/d/Sintel/training/clean'' then Inr [''b'', ''a'']
        else if p = ''/d/Sintel/test/clean'' then Inr [''c'']
        else if p = ''/odd/Sintel/training/clean'' then Inr [''a'']
        else if p = ''/empty/Sintel/training/clean'' then Inr [''a'', ''e'']
        else Inl (FileNotFoundError p)),
      glob := (\<lambda>p.
        if p = ''/d/Sintel/training/clean/a/*.png'' then [''a/2.png'', ''a/1.png'', ''a/3.png'']
        else if p = ''/d/Sintel/training/clean/b/*.png'' then [''b/1.png'', ''b/2.png'']
        else if p = ''/d/Sintel/training/flow/a/*.flo'' then [''a/2.flo'', ''a/1.flo'']
        else if p = ''/d/Sintel/training/flow/b/*.flo'' then [''b/1.flo'']
        else if p = ''/d/Sintel/test/clean/c/*.png'' then [''c/1.png'', ''c/2.png'']
        else if p = ''/odd/Sintel/training/clean/a/*.png'' then [''a/2.png'', ''a/1.png'', ''a/3.png'']
        else if p = ''/odd/Sintel/training/flow/a/*.flo'' then [''a/1.flo'']
        else if p = ''/empty/Sintel/training/clean/a/*.png'' then [''a/2.png'', ''a/1.png'', ''a/3.png'']
        else []),
      open_rb := (\<lambda>p.
        if p = ''b/1.flo'' then Inr good_flo
        else if p = ''a/1.flo'' then Inr bad_flo
        else Inl (FileNotFoundError p))\<rparr>"

definition chairs_world :: "path world" where
  "chairs_world = empty_world
     \<lparr>glob := (\<lambda>p.
        if p = ''/d/FlyingChairs/data/*.ppm''
          then [''1_img1.ppm'', ''1_img2.ppm'', ''2_img1.ppm'', ''2_img2.ppm'', ''3_img1.ppm'', ''3_img2.ppm'']
        else if p = ''/d/FlyingChairs/data/*.flo'' then [''1.flo'', ''2.flo'', ''3.flo'']
        else if p = ''/odd/FlyingChairs/data/*.ppm'' then [''1_img1.ppm'', ''1_img2.ppm'']
        else if p = ''/odd/FlyingChairs/data/*.flo'' then [''1.flo'']
        else if p = ''/short/FlyingChairs/data/*.ppm'' then [''1_img1.ppm'', ''1_img2.ppm'']
        else if p = ''/short/FlyingChairs/data/*.flo'' then [''1.flo'', ''2.flo'', ''3.flo'']
        else if p = ''/single/FlyingChairs/data/*.ppm'' then [''1_img1.ppm'', ''1_img2.ppm'']
        else if p = ''/single/FlyingChairs/data/*.flo'' then [''1.flo'']
        else if p = ''/wide/FlyingChairs/data/*.ppm''
          then [''1_img1.ppm'', ''1_img2.ppm'', ''2_img1.ppm'', ''2_img2.ppm'', ''3_img1.ppm'', ''3_img2.ppm'',
                ''4_img1.ppm'', ''4_img2.ppm'', ''5_img1.ppm'', ''5_img2.ppm'']
        else if p = ''/wide/FlyingChairs/data/*.flo''
          then [''1.flo'', ''2.flo'', ''3.flo'', ''4.flo'', ''5.flo'']
        else []),
      path_exists := (\<lambda>p. p = ''/d/FlyingChairs/FlyingChairs_train_val.txt''
          \<or> p = ''/odd/FlyingChairs/FlyingChairs_train_val.txt''
          \<or> p = ''/short/FlyingChairs/FlyingChairs_train_val.txt''
          \<or> p = ''/single/FlyingChairs/FlyingChairs_train_val.txt''
          \<or> p = ''/wide/FlyingChairs/FlyingChairs_train_val.txt''),
      loadtxt := (\<lambda>p.
        if p = ''/d/FlyingChairs/FlyingChairs_train_val.txt'' then Inr (Array1 [1, 2, 1])
        else if p = ''/odd/FlyingChairs/FlyingChairs_train_val.txt'' then Inr (Array1 [1, 1])
        else if p = ''/short/FlyingChairs/FlyingChairs_train_val.txt'' then Inr (Array1 [1, 2])
        else if p = ''/single/FlyingChairs/FlyingChairs_train_val.txt'' then Inr (Array0 1)
        else if p = ''/wide/FlyingChairs/FlyingChairs_train_val.txt''
          then Inr (Array2 [(1, 1, []), (1, 1, [])])
        else Inl (OSError p)),
      open_rb := (\<lambda>p. if p = ''1.flo'' then Inr good_flo else Inl (FileNotFoundError p))\<rparr>"

text \<open>The instances that the constructors build on these trees, and a transform that swaps the
  two images.\<close>

definition kitti_ds :: "(path, nat) dataset" where
  "kitti_ds = \<lparr>variant = KittiFlow, transforms = None,
     flow_list = [''f/0_10.png'', ''f/1_10.png''],
     image_list = [(''k/0_10.png'', ''k/0_11.png''), (''k/1_10.png'', ''k/1_11.png'')]\<rparr>"

definition sintel_ds :: "(path, nat) dataset" where
  "sintel_ds = \<lparr>variant = Sintel, transforms = None,
     flow_list = [''b/1.flo'', ''a/1.flo'', ''a/2.flo''],
     image_list = [(''b/1.png'', ''b/2.png''), (''a/1.png'', ''a/2.png''), (''a/2.png'', ''a/3.png'')]\<rparr>"

definition sintel_odd_ds :: "(path, nat) dataset" where
  "sintel_odd_ds = \<lparr>variant = Sintel, transforms = None, flow_list = [''a/1.flo''],
     image_list = [(''a/1.png'', ''a/2.png''), (''a/2.png'', ''a/3.png'')]\<rparr>"

definition chairs_ds :: "(path, nat) dataset" where
  "chairs_ds = \<lparr>variant = FlyingChairs, transforms = None, flow_list = [''1.flo'', ''3.flo''],
     image_list = [(''1_img1.ppm'', ''1_img2.ppm''), (''3_img1.ppm'', ''3_img2.ppm'')]\<rparr>"

definition chairs_odd_ds :: "(path, nat) dataset" where
  "chairs_odd_ds = \<lparr>variant = FlyingChairs, transforms = None, flow_list = [''1.flo''],
     image_list = [(''1_img1.ppm'', ''1_img2.ppm'')]\<rparr>"

definition sintel_empty_ds :: "(path, nat) dataset" where
  "sintel_empty_ds = \<lparr>variant = Sintel, transforms = None, flow_list = [],
     image_list = [(''a/1.png'', ''a/2.png''), (''a/2.png'', ''a/3.png'')]\<rparr>"

text \<open>The integers of the split file, in the order of the file.\<close>

definition array_entries :: "ndarray \<Rightarrow> int list" where
  "array_entries a =
     (case a of
        Array0 v \<Rightarrow> [v]
      | Array1 xs \<Rightarrow> xs
      | Array2 rows \<Rightarrow> concat (map (\<lambda>(x, y, zs). x # y # zs) rows))"

text \<open>The indices that the loop of \<open>FlyingChairs.__init__\<close> retains among the first \<open>n\<close>.\<close>

definition kept_indices :: "string \<Rightarrow> int list \<Rightarrow> nat \<Rightarrow> nat list" where
  "kept_indices split split_list n = filter (\<lambda>i. retained split (split_list ! i)) [0 ..< n]"

definition swap_images :: "(path, nat) transform" where
  "swap_images x n = (case x of (img1, img2, flow, valid) \<Rightarrow> ((img2, img1, flow, valid), n))"

text \<open>A transform that counts its calls and swaps the images on every second one, and the
  Sintel instance of the tree \<open>/d\<close> with it.\<close>

definition alternate_swap :: "(path, nat) transform" where
  "alternate_swap x n =
     (case x of (img1, img2, flow, valid) \<Rightarrow>
        ((if even n then (img1, img2, flow, valid) else (img2, img1, flow, valid)), n + 1))"

definition sintel_alternate_ds :: "(path, nat) dataset" where
  "sintel_alternate_ds = \<lparr>variant = Sintel, transforms = Some alternate_swap, flow_list = [],
     image_list = [(''c/1.png'', ''c/2.png'')]\<rparr>"

text \<open>The state in which a method of an instance starts on a tree: no file opened yet.\<close>

definition start :: "('img, 's) dataset \<Rightarrow> 'img world \<Rightarrow> 's \<Rightarrow> ('img, 's) pystate" where
  "start ds wd ts = \<lparr>self = ds, disk = wd, transform_state = ts, opened = []\<rparr>"

definition sintel_test_ds :: "(path, nat) dataset" where
  "sintel_test_ds = \<lparr>variant = Sintel, transforms = Some swap_images, flow_list = [],
     image_list = [(''c/1.png'', ''c/2.png'')]\<rparr>"

subsection \<open>Counts over the scenes of a Sintel tree\<close>

text \<open>The sorted frames of a scene, as the constructor computes them.\<close>

definition scene_frames :: "'img world \<Rightarrow> path \<Rightarrow> string \<Rightarrow> string \<Rightarrow> path \<Rightarrow> path list" where
  "scene_frames wd root_dir split pass_name scene =
     sort (Sintel_frames wd (Sintel_image_root root_dir split pass_name) scene)"

definition Sintel_flow_count :: "'img world \<Rightarrow> path \<Rightarrow> path list \<Rightarrow> nat" where
  "Sintel_flow_count wd root_dir scenes =
     (\<Sum>scene\<leftarrow>scenes. length (Sintel_flows wd (Sintel_flow_root root_dir) scene))"

definition Sintel_pair_count :: "'img world \<Rightarrow> path \<Rightarrow> string \<Rightarrow> string \<Rightarrow> path list \<Rightarrow> nat" where
  "Sintel_pair_count wd root_dir split pass_name scenes =
     (\<Sum>scene\<leftarrow>scenes. length (consecutive_pairs
        (sort (Sintel_frames wd (Sintel_image_root root_dir split pass_name) scene))))"

section \<open>Lemmas\<close>

subsection \<open>The loops of the constructors\<close>

lemma verify_str_arg_ok: "val \<in> set vs \<Longrightarrow> verify_str_arg val arg vs = Inr ()"
  by (simp add: verify_str_arg_def)

lemma sort_eq_Nil [simp]: "sort xs = [] \<longleftrightarrow> xs = []"
proof -
  have "length (sort xs) = length xs" by simp
  then show ?thesis by (metis length_0_conv)
qed

lemma Sintel_scenes_image_list:
  "image_list (Sintel_scenes wd ir fr split scenes ds) =
     image_list ds @ concat (map (\<lambda>scene. consecutive_pairs (sort (Sintel_frames wd ir scene))) scenes)"
  by (induction scenes arbitrary: ds) (simp_all add: Let_def)

lemma Sintel_scenes_flow_list:
  "flow_list (Sintel_scenes wd ir fr split scenes ds) =
     flow_list ds @ (if split = ''train''
        then concat (map (\<lambda>scene. sort (Sintel_flows wd fr scene)) scenes) else [])"
  by (induction scenes arbitrary: ds) (simp_all add: Let_def)

lemma Sintel_scenes_variant:
  "variant (Sintel_scenes wd ir fr split scenes ds) = variant ds"
  by (induction scenes arbitrary: ds) (simp_all add: Let_def)

lemma py_index_nat:
  "py_index xs (int i) = (if i < length xs then Inr (xs ! i) else Inl (IndexError ''list index out of range''))"
  by (simp add: py_index_def Let_def)

lemma np_index_nat:
  "np_index xs (int i) = (if i < length xs then Inr (xs ! i) else Inl (IndexError ''index is out of bounds for axis 0''))"
  by (simp add: np_index_def Let_def)

lemma py_index_nat2:
  "py_index xs (2 * int i) = (if 2 * i < length xs then Inr (xs ! (2 * i)) else Inl (IndexError ''list index out of range''))"
  using py_index_nat [of xs "2 * i"] by simp

lemma py_index_nat21:
  "py_index xs (2 * int i + 1) = (if 2 * i + 1 < length xs then Inr (xs ! (2 * i + 1)) else Inl (IndexError ''list index out of range''))"
  using py_index_nat [of xs "2 * i + 1"] by (simp add: add.commute)

lemma split_condition_Array1:
  "(case np_getitem (Array1 sl) (int i) of Inl e \<Rightarrow> Inl e
      | Inr split_id \<Rightarrow> split_condition split split_id) =
   (if i < length sl then Inr (retained split (sl ! i))
    else Inl (IndexError ''index is out of bounds for axis 0''))"
  by (simp add: np_getitem_def np_index_nat split_condition_def)

lemma np_getitem_Array1:
  "np_getitem (Array1 sl) (int i) =
     (if i < length sl then Inr (Scalar (sl ! i))
      else Inl (IndexError ''index is out of bounds for axis 0''))"
  by (simp add: np_getitem_def np_index_nat)

lemma split_condition_Scalar [simp]: "split_condition split (Scalar v) = Inr (retained split v)"
  by (simp add: split_condition_def)

lemma FlyingChairs_loop_ok:
  "\<forall>i \<in> set idx. index_ok split sl images flows i \<Longrightarrow>
   FlyingChairs_loop split (Array1 sl) images flows idx ds =
     Inr (ds\<lparr>flow_list := flow_list ds @ map (\<lambda>i. flows ! i) (filter (\<lambda>i. retained split (sl ! i)) idx),
             image_list := image_list ds @
               map (\<lambda>i. (images ! (2 * i), images ! (2 * i + 1))) (filter (\<lambda>i. retained split (sl ! i)) idx)\<rparr>)"
proof (induction idx arbitrary: ds)
  case Nil
  then show ?case by simp
next
  case (Cons i idx)
  then have ok: "index_ok split sl images flows i" and rest: "\<forall>i \<in> set idx. index_ok split sl images flows i"
    by simp_all
  show ?case
  proof (cases "retained split (sl ! i)")
    case True
    with ok have b: "i < length sl" "i < length flows" "2 * i < length images" "2 * i + 1 < length images"
      by (auto simp: index_ok_def)
    show ?thesis
      using True b Cons.IH [OF rest]
      by (simp add: np_getitem_Array1 py_index_nat py_index_nat2 py_index_nat21)
  next
    case False
    with ok have b: "i < length sl" by (simp add: index_ok_def)
    show ?thesis using False b Cons.IH [OF rest] by (simp add: np_getitem_Array1)
  qed
qed

lemma FlyingChairs_loop_fail:
  "\<exists>i \<in> set idx. \<not> index_ok split sl images flows i \<Longrightarrow> set idx \<subseteq> {..< length flows} \<Longrightarrow>
   \<exists>msg. FlyingChairs_loop split (Array1 sl) images flows idx ds = Inl (IndexError msg)"
proof (induction idx arbitrary: ds)
  case Nil
  then show ?case by simp
next
  case (Cons i idx)
  have fl: "i < length flows" using Cons.prems(2) by simp
  have sub: "set idx \<subseteq> {..< length flows}" using Cons.prems(2) by simp
  show ?case
  proof (cases "index_ok split sl images flows i")
    case True
    then have ex: "\<exists>i \<in> set idx. \<not> index_ok split sl images flows i" using Cons.prems(1) by simp
    from True have b: "i < length sl" by (simp add: index_ok_def)
    show ?thesis
    proof (cases "retained split (sl ! i)")
      case r: True
      with True have b2: "2 * i < length images" "2 * i + 1 < length images"
        by (auto simp: index_ok_def)
      show ?thesis using r b b2 fl Cons.IH [OF ex sub]
        by (simp add: np_getitem_Array1 py_index_nat py_index_nat2 py_index_nat21)
    next
      case r: False
      show ?thesis using r b Cons.IH [OF ex sub] by (simp add: np_getitem_Array1)
    qed
  next
    case False
    show ?thesis
    proof (cases "i < length sl")
      case b: True
      with False fl have r: "retained split (sl ! i)" and nb: "\<not> (2 * i + 2 \<le> length images)"
        by (auto simp: index_ok_def)
      show ?thesis using b r nb fl
        by (auto simp add: np_getitem_Array1 py_index_nat py_index_nat2 py_index_nat21)
    next
      case b: False
      then show ?thesis by (simp add: np_getitem_Array1)
    qed
  qed
qed

lemma FlyingChairs_loop_Array0:
  "FlyingChairs_loop split (Array0 v) images flows (i # rest) ds =
     Inl (IndexError ''too many indices for array: array is 0-dimensional, but 1 were indexed'')"
  by (simp add: np_getitem_def)

lemma FlyingChairs_loop_Array2:
  assumes "split = ''train'' \<or> split = ''val''"
  shows "FlyingChairs_loop split (Array2 rows) images flows (i # rest) ds =
     (if i < length rows
      then Inl (ValueError ''The truth value of an array with more than one element is ambiguous'')
      else Inl (IndexError ''index is out of bounds for axis 0''))"
  using assms
  by (auto simp: np_getitem_def np_index_nat split_condition_def truth_value_def
      split: prod.splits)

lemma FlyingChairs_loop_variant:
  "FlyingChairs_loop split sl images flows idx ds = Inr ds' \<Longrightarrow>
     variant ds' = variant ds \<and> transforms ds' = transforms ds"
proof (induction idx arbitrary: ds)
  case Nil
  then show ?case by simp
next
  case (Cons i idx)
  show ?case
    using Cons.prems Cons.IH
    by (fastforce split: sum.splits if_splits)
qed

lemma FlyingChairs_loop_lengths:
  "FlyingChairs_loop split sl images flows idx ds = Inr ds' \<Longrightarrow>
     length (flow_list ds) = length (image_list ds) \<Longrightarrow>
     length (flow_list ds') = length (image_list ds')"
proof (induction idx arbitrary: ds)
  case Nil
  then show ?case by simp
next
  case (Cons i idx)
  show ?case
    using Cons.prems Cons.IH
    by (fastforce split: sum.splits if_splits)
qed

lemma Sintel_init_variant:
  "Sintel_init wd root_dir split pass_name t = Inr ds \<Longrightarrow> variant ds = Sintel"
  by (auto simp: Sintel_init_def Sintel_scenes_variant FlowDataset_init_def split: sum.splits)

lemma KittiFlow_init_variant:
  "KittiFlow_init wd root_dir split t = Inr ds \<Longrightarrow> variant ds = KittiFlow"
  by (auto simp: KittiFlow_init_def FlowDataset_init_def Let_def split: sum.splits if_splits)

lemma FlyingChairs_init_variant:
  "FlyingChairs_init wd root_dir split t = Inr ds \<Longrightarrow> variant ds = FlyingChairs"
  by (auto simp: FlyingChairs_init_def FlowDataset_init_def Let_def
      dest!: FlyingChairs_loop_variant split: sum.splits if_splits)

subsection \<open>\<open>__getitem__\<close> in a state\<close>

text \<open>Two states show a method the same things when they have the same instance, the same
  files and the same state of the transform; they may differ in the files opened.\<close>

lemma read_img_fields [simp]:
  "self (snd (read_img f s)) = self s"
  "disk (snd (read_img f s)) = disk s"
  "transform_state (snd (read_img f s)) = transform_state s"
  "fst (read_img f s) = image_open (disk s) f"
  by (simp_all add: read_img_def)

lemma read_flow_method_fields [simp]:
  "self (snd (read_flow_method f s)) = self s"
  "disk (snd (read_flow_method f s)) = disk s"
  "transform_state (snd (read_flow_method f s)) = transform_state s"
  "fst (read_flow_method f s) = read_flow (disk s) (variant (self s)) f"
  by (simp_all add: read_flow_method_def)

lemma getitem_flow_fields [simp]:
  "self (snd (getitem_flow index s)) = self s"
  "disk (snd (getitem_flow index s)) = disk s"
  "transform_state (snd (getitem_flow index s)) = transform_state s"
  by (auto simp: getitem_flow_def read_flow_method_def
      split: sum.splits prod.splits flow_read.splits)

lemma getitem_flow_result:
  assumes "self s = self s'" and "disk s = disk s'"
  shows "fst (getitem_flow index s) = fst (getitem_flow index s')"
  using assms
  by (auto simp: getitem_flow_def read_flow_method_def
      split: sum.splits prod.splits flow_read.splits)

lemma apply_transforms_fields [simp]:
  "self (snd (apply_transforms x s)) = self s"
  "disk (snd (apply_transforms x s)) = disk s"
  by (auto simp: apply_transforms_def split: option.splits prod.splits)

lemma apply_transforms_None:
  "transforms (self s) = None \<Longrightarrow> apply_transforms x s = (x, s)"
  by (simp add: apply_transforms_def)

lemma apply_transforms_result:
  assumes "self s = self s'" and "transform_state s = transform_state s'"
  shows "fst (apply_transforms x s) = fst (apply_transforms x s')"
    and "transform_state (snd (apply_transforms x s)) = transform_state (snd (apply_transforms x s'))"
  using assms
  by (auto simp: apply_transforms_def split: option.splits prod.splits)

lemma getitem_fields [simp]:
  "self (snd (getitem index s)) = self s"
  "disk (snd (getitem index s)) = disk s"
  by (auto simp: getitem_def getitem_flow_def read_flow_method_def read_img_def apply_transforms_def
      split: sum.splits prod.splits flow_read.splits option.splits)

lemma getitem_transform_state:
  "transforms (self s) = None \<Longrightarrow> transform_state (snd (getitem index s)) = transform_state s"
  by (auto simp: getitem_def getitem_flow_def read_flow_method_def read_img_def apply_transforms_def
      split: sum.splits prod.splits flow_read.splits option.splits)

lemma getitem_result:
  assumes "self s = self s'" and "disk s = disk s'" and "transform_state s = transform_state s'"
  shows "fst (getitem index s) = fst (getitem index s')"
  using assms
  by (auto simp: getitem_def getitem_flow_def read_flow_method_def read_img_def apply_transforms_def
      split: sum.splits prod.splits flow_read.splits option.splits)

lemma getitem_arity_flag:
  "fst (getitem index s) = Inr r \<Longrightarrow>
     arity r = (if has_builtin_flow_mask (variant (self s)) then 4 else 3)"
  by (auto simp: getitem_def getitem_flow_def read_flow_method_def read_img_def apply_transforms_def
      split: sum.splits prod.splits flow_read.splits option.splits if_splits)

lemma kitti_globs:
  "Kitti_glob_10 kitti_world ''/d'' ''train'' = [''k/1_10.png'', ''k/0_10.png'']"
  "Kitti_glob_11 kitti_world ''/d'' ''train'' = [''k/0_11.png'', ''k/1_11.png'']"
  "Kitti_glob_flow kitti_world ''/d'' ''train'' = [''f/0_10.png'', ''f/1_10.png'']"
  "Kitti_glob_10 empty_world ''/d'' ''train'' = []"
  by (simp_all add: Kitti_glob_10_def Kitti_glob_11_def Kitti_glob_flow_def kitti_world_def
      empty_world_def Kitti_root_def path_join_def)

lemma sintel_eval:
  "Sintel_init sintel_world ''/d'' ''train'' ''clean'' None =
     Inr \<lparr>variant = Sintel, transforms = None, flow_list = [''b/1.flo'', ''a/1.flo'', ''a/2.flo''],
          image_list = [(''b/1.png'', ''b/2.png''), (''a/1.png'', ''a/2.png''), (''a/2.png'', ''a/3.png'')]\<rparr>"
  by (simp add: Sintel_init_def sintel_world_def empty_world_def verify_str_arg_def
      Sintel_image_root_def Sintel_flow_root_def path_join_def FlowDataset_init_def
      Sintel_frames_def Sintel_flows_def consecutive_pairs_def Let_def upt_rec)

lemma sintel_odd_eval:
  "Sintel_init sintel_world ''/odd'' ''train'' ''clean'' None =
     Inr \<lparr>variant = Sintel, transforms = None, flow_list = [''a/1.flo''],
          image_list = [(''a/1.png'', ''a/2.png''), (''a/2.png'', ''a/3.png'')]\<rparr>"
  by (simp add: Sintel_init_def sintel_world_def empty_world_def verify_str_arg_def
      Sintel_image_root_def Sintel_flow_root_def path_join_def FlowDataset_init_def
      Sintel_frames_def Sintel_flows_def consecutive_pairs_def Let_def upt_rec)

lemma chairs_eval:
  "FlyingChairs_init chairs_world ''/d'' ''train'' None =
     Inr \<lparr>variant = FlyingChairs, transforms = None, flow_list = [''1.flo'', ''3.flo''],
          image_list = [(''1_img1.ppm'', ''1_img2.ppm''), (''3_img1.ppm'', ''3_img2.ppm'')]\<rparr>"
  by (simp add: FlyingChairs_init_def chairs_world_def empty_world_def verify_str_arg_def
      FlyingChairs_glob_ppm_def FlyingChairs_glob_flo_def FlyingChairs_root_def split_file_def
      path_join_def FlowDataset_init_def Let_def upt_rec np_getitem_def np_index_def py_index_def
      retained_def)


lemma FlyingChairs_init_lengths:
  "FlyingChairs_init wd root_dir split t = Inr ds \<Longrightarrow>
     length (flow_list ds) = length (image_list ds)"
  by (auto simp: FlyingChairs_init_def FlowDataset_init_def Let_def
      dest!: FlyingChairs_loop_lengths split: sum.splits if_splits)

lemma Sintel_init_lists:
  assumes "Sintel_init wd root_dir split pass_name t = Inr ds"
    and "listdir wd (Sintel_image_root root_dir split pass_name) = Inr scenes"
  shows "length (image_list ds) = Sintel_pair_count wd root_dir split pass_name scenes"
    and "length (flow_list ds) = (if split = ''train'' then Sintel_flow_count wd root_dir scenes else 0)"
  using assms
  by (auto simp: Sintel_init_def Sintel_scenes_image_list Sintel_scenes_flow_list
      FlowDataset_init_def Sintel_pair_count_def Sintel_flow_count_def length_concat comp_def
      split: sum.splits)

lemma KittiFlow_init_lists:
  assumes "KittiFlow_init wd root_dir split t = Inr ds"
  shows "length (image_list ds) = min (length (Kitti_glob_10 wd root_dir split))
                                      (length (Kitti_glob_11 wd root_dir split))"
    and "length (flow_list ds) = (if split = ''train'' then length (Kitti_glob_flow wd root_dir split) else 0)"
  using assms
  by (auto simp: KittiFlow_init_def FlowDataset_init_def Let_def split: sum.splits if_splits)

lemma FlyingChairs_loop_Inr_ok:
  assumes "FlyingChairs_loop split (Array1 sl) images flows idx ds = Inr ds'"
    and "set idx \<subseteq> {..< length flows}"
  shows "\<forall>i \<in> set idx. index_ok split sl images flows i"
proof (rule ccontr)
  assume "\<not> (\<forall>i \<in> set idx. index_ok split sl images flows i)"
  then have "\<exists>i \<in> set idx. \<not> index_ok split sl images flows i" by simp
  from FlyingChairs_loop_fail [OF this assms(2), of ds] assms(1) show False by auto
qed

lemma FlyingChairs_loop_Inr_shape:
  assumes "FlyingChairs_loop split arr images flows idx ds = Inr ds'"
    and "idx \<noteq> []" and "split = ''train'' \<or> split = ''val''"
  shows "\<exists>sl. arr = Array1 sl"
proof (cases arr)
  case (Array0 v)
  with assms show ?thesis
    by (cases idx) (simp_all add: FlyingChairs_loop_Array0 del: FlyingChairs_loop.simps)
next
  case (Array1 sl)
  then show ?thesis by simp
next
  case (Array2 rows)
  with assms show ?thesis
    by (cases idx)
      (simp_all add: FlyingChairs_loop_Array2 del: FlyingChairs_loop.simps split: if_splits)
qed

lemma FlyingChairs_init_split:
  "FlyingChairs_init wd root_dir split t = Inr ds \<Longrightarrow> split = ''train'' \<or> split = ''val''"
  by (auto simp: FlyingChairs_init_def verify_str_arg_def split: sum.splits if_splits)

lemma all_index_ok_length:
  assumes "\<forall>i \<in> set [0 ..< n]. index_ok split sl images flows i"
  shows "n \<le> length sl"
proof (cases n)
  case 0
  then show ?thesis by simp
next
  case (Suc k)
  then have "k \<in> set [0 ..< n]" by simp
  with assms have "index_ok split sl images flows k" by blast
  then have "k < length sl" by (simp add: index_ok_def)
  with Suc show ?thesis by simp
qed

lemma filter_nth_take:
  assumes "n \<le> length xs"
  shows "length (filter (\<lambda>i. P (xs ! i)) [0 ..< n]) = length (filter P (take n xs))"
proof -
  have "take n xs = map (\<lambda>i. xs ! i) [0 ..< n]"
    using assms by (auto simp: list_eq_iff_nth_eq)
  then show ?thesis
    by (simp add: filter_map comp_def)
qed

lemma Sintel_init_ok:
  assumes "split = ''train'' \<or> split = ''test''"
    and "pass_name = ''clean'' \<or> pass_name = ''final''"
    and "listdir wd (Sintel_image_root root_dir split pass_name) = Inr scenes"
  shows "Sintel_init wd root_dir split pass_name t =
           Inr (Sintel_scenes wd (Sintel_image_root root_dir split pass_name)
                  (Sintel_flow_root root_dir) split scenes (FlowDataset_init Sintel t))"
proof -
  have "verify_str_arg split ''split'' [''train'', ''test''] = Inr ()"
    using assms(1) by (auto intro: verify_str_arg_ok)
  moreover have "verify_str_arg pass_name ''pass_name'' [''clean'', ''final''] = Inr ()"
    using assms(2) by (auto intro: verify_str_arg_ok)
  ultimately show ?thesis
    using assms(3) by (simp add: Sintel_init_def)
qed

lemma int_length_consecutive_pairs:
  "int (length (consecutive_pairs xs)) = max 0 (int (length xs) - 1)"
  by (simp add: consecutive_pairs_def)

lemma consecutive_pairs_nth:
  "consecutive_pairs xs = map (\<lambda>i. (xs ! i, xs ! (i + 1))) [0 ..< length xs - 1]"
proof -
  have "nat (int (length xs) - 1) = length xs - 1" by arith
  then show ?thesis by (simp add: consecutive_pairs_def)
qed

lemma int_sum_list_length:
  "int (\<Sum>x\<leftarrow>xs. length (f x)) = (\<Sum>x\<leftarrow>xs. int (length (f x)))"
  by (induction xs) simp_all

subsection \<open>Rounding to binary32 is exact on short dyadic numbers\<close>

lemma pow2_powi: "pow2 k = 2 powi k"
  by (simp add: pow2_def power_int_def inverse_eq_divide power_one_over)

lemma pow2_pos [simp]: "0 < pow2 k"
  by (simp add: pow2_powi)

lemma pow2_nonzero [simp]: "pow2 k \<noteq> 0"
  using pow2_pos [of k] by (simp only: less_irrefl not_sym [OF less_imp_neq] not_False_eq_True)

lemma abs_pow2 [simp]: "\<bar>pow2 k\<bar> = pow2 k"
  using pow2_pos [of k] by (simp only: abs_of_pos)

lemma pow2_add: "pow2 (a + b) = pow2 a * pow2 b"
  by (simp add: pow2_powi power_int_add)

lemma pow2_diff: "pow2 (a - b) = pow2 a / pow2 b"
  by (simp add: pow2_powi power_int_diff)

lemma pow2_nat: "0 \<le> k \<Longrightarrow> pow2 k = of_int (2 ^ nat k)"
  by (simp add: pow2_def)

lemma pow2_less_iff: "pow2 a < pow2 b \<longleftrightarrow> a < b"
proof
  assume l: "pow2 a < pow2 b"
  show "a < b"
  proof (rule ccontr)
    assume "\<not> a < b"
    then have "b \<le> a" by simp
    then have "pow2 b \<le> pow2 a"
      unfolding pow2_powi by (intro power_int_increasing) simp_all
    with l show False by simp
  qed
next
  assume "a < b"
  then show "pow2 a < pow2 b"
    unfolding pow2_powi by (intro power_int_strict_increasing) simp_all
qed

lemma int_pow2_bounds:
  assumes "0 < a"
  shows "pow2 (bitlen a - 1) \<le> of_int a \<and> of_int a < pow2 (bitlen a)"
proof -
  have ge: "1 \<le> bitlen a" using assms by (simp add: bitlen_alt_def)
  have b: "2 ^ nat (bitlen a - 1) \<le> a \<and> a < 2 ^ nat (bitlen a)"
    using bitlen_bounds [OF assms] .
  have "(of_int (2 ^ nat (bitlen a - 1)) :: rat) \<le> of_int a"
    using b by (subst of_int_le_iff) simp
  moreover have "(of_int a :: rat) < of_int (2 ^ nat (bitlen a))"
    using b by (subst of_int_less_iff) simp
  ultimately show ?thesis
    using ge by (simp add: pow2_nat)
qed

lemma ilog2_bounds:
  assumes "q \<noteq> 0"
  shows "pow2 (ilog2 q) \<le> \<bar>q\<bar> \<and> \<bar>q\<bar> < pow2 (ilog2 q + 1)"
proof -
  obtain a b where ab: "quotient_of \<bar>q\<bar> = (a, b)" by (cases "quotient_of \<bar>q\<bar>")
  then have b: "0 < b" and q: "\<bar>q\<bar> = of_int a / of_int b"
    by (simp_all add: quotient_of_denom_pos quotient_of_div)
  have "0 < \<bar>q\<bar>" using assms by simp
  with q b have a: "0 < a"
    by (simp add: zero_less_divide_iff)
  define d where "d = bitlen a - bitlen b"
  note A = int_pow2_bounds [OF a]
  note B = int_pow2_bounds [OF b]
  have rb: "(0::rat) < of_int b" using b by simp
  have "of_int a / of_int b < pow2 (bitlen a) / pow2 (bitlen b - 1)"
    using A B a by (intro frac_less) simp_all
  also have "\<dots> = pow2 (d + 1)"
    by (simp add: d_def pow2_diff [symmetric] algebra_simps)
  finally have up: "\<bar>q\<bar> < pow2 (d + 1)" using q by simp
  have "pow2 (bitlen a - 1) / pow2 (bitlen b) < of_int a / of_int b"
    using A B rb by (intro frac_less2) simp_all
  moreover have "pow2 (bitlen a - 1) / pow2 (bitlen b) = pow2 (d - 1)"
    by (simp add: d_def pow2_diff [symmetric] algebra_simps)
  ultimately have lo: "pow2 (d - 1) < \<bar>q\<bar>" using q by simp
  have il: "ilog2 q = (if pow2 d \<le> \<bar>q\<bar> then d else d - 1)"
    by (simp add: ilog2_def ab d_def Let_def)
  show ?thesis
    using up lo by (auto simp: il)
qed

lemma round_half_even_int [simp]: "round_half_even (of_int n) = n"
  by (simp add: round_half_even_def)

lemma f32_of_rat_exact:
  assumes q: "q = of_int m * pow2 k"
    and m: "\<bar>m\<bar> < 2 ^ 24"
    and k: "- 149 \<le> k"
    and bound: "\<bar>q\<bar> < pow2 128"
  shows "f32_of_rat q = Fin q"
proof (cases "q = 0")
  case True
  then show ?thesis by (simp add: f32_of_rat_def)
next
  case False
  define e where "e = max (ilog2 q) (- 126)"
  have e_le: "e \<le> k + 23"
  proof (cases "ilog2 q \<le> - 126")
    case True
    then show ?thesis using k by (simp add: e_def)
  next
    case False
    then have e: "e = ilog2 q" by (simp add: e_def)
    have "pow2 (ilog2 q) \<le> \<bar>q\<bar>" using ilog2_bounds [OF \<open>q \<noteq> 0\<close>] by simp
    also have "\<bar>q\<bar> = of_int \<bar>m\<bar> * pow2 k"
      by (simp add: q abs_mult)
    also have "\<dots> < of_int (2 ^ 24) * pow2 k"
      using m by (intro mult_strict_right_mono) (simp_all only: of_int_less_iff pow2_pos)
    also have "\<dots> = pow2 (k + 24)"
      by (simp add: pow2_add pow2_nat)
    finally have "ilog2 q < k + 24" by (simp add: pow2_less_iff)
    then show ?thesis by (simp add: e)
  qed
  define j where "j = nat (k + 23 - e)"
  have "pow2 k / pow2 (e - 23) = pow2 (k - (e - 23))"
    by (simp add: pow2_diff)
  also have "\<dots> = of_int (2 ^ j)"
    using e_le by (simp add: pow2_nat j_def algebra_simps)
  finally have ratio: "pow2 k / pow2 (e - 23) = of_int (2 ^ j)" .
  have "q / pow2 (e - 23) = of_int m * (pow2 k / pow2 (e - 23))"
    by (simp add: q)
  also have "\<dots> = of_int (m * 2 ^ j)"
    by (simp only: ratio of_int_mult)
  finally have div: "q / pow2 (e - 23) = of_int (m * 2 ^ j)" .
  have rb: "of_int (round_half_even (q / pow2 (e - 23))) * pow2 (e - 23) = q"
  proof -
    have "of_int (round_half_even (q / pow2 (e - 23))) * pow2 (e - 23)
            = q / pow2 (e - 23) * pow2 (e - 23)"
      by (simp only: div round_half_even_int)
    also have "\<dots> = q" by simp
    finally show ?thesis .
  qed
  show ?thesis
    using False bound
    by (simp add: f32_of_rat_def Let_def e_def [symmetric] rb)
qed


lemma f32_of_int_exact:
  assumes "\<bar>n\<bar> < 2 ^ 24"
  shows "f32_of_int n = Fin (of_int n)"
proof -
  have "(of_int \<bar>n\<bar> :: rat) < of_int (2 ^ 24)"
    using assms by (simp only: of_int_less_iff)
  also have "(of_int (2 ^ 24) :: rat) < pow2 128"
    by (simp add: pow2_def)
  finally have "\<bar>of_int n :: rat\<bar> < pow2 128" by simp
  then show ?thesis
    unfolding f32_of_int_def
    using assms by (intro f32_of_rat_exact [where m = n and k = 0]) (simp_all add: pow2_def)
qed

lemma decode_exact:
  assumes "\<bar>n\<bar> \<le> 2 ^ 16"
  shows "f32_div (f32_sub (f32_of_int n) (f32_of_int (2 ^ 15))) (f32_of_int 64)
           = Fin ((of_int n - 2 ^ 15) / 64)"
proof -
  have n: "f32_of_int n = Fin (of_int n)"
    using assms by (intro f32_of_int_exact) simp
  have c: "f32_of_int 32768 = Fin 32768" "f32_of_int 64 = Fin 64"
    using f32_of_int_exact [of 32768] f32_of_int_exact [of 64] by simp_all
  have small: "\<bar>n - 2 ^ 15\<bar> < 2 ^ 24" using assms by simp
  have "f32_of_rat (of_int n - 2 ^ 15) = f32_of_int (n - 2 ^ 15)"
    by (simp add: f32_of_int_def)
  also have "\<dots> = Fin (of_int (n - 2 ^ 15))"
    using small by (rule f32_of_int_exact)
  finally have s: "f32_of_rat (of_int n - 32768) = Fin (of_int n - 32768)"
    by simp
  have b: "\<bar>(of_int (n - 2 ^ 15) :: rat) / 64\<bar> < pow2 128"
  proof -
    have "\<bar>(of_int (n - 2 ^ 15) :: rat) / 64\<bar> \<le> \<bar>of_int (n - 2 ^ 15)\<bar>"
      by (simp add: divide_le_eq)
    also have "\<dots> = of_int \<bar>n - 2 ^ 15\<bar>" by simp
    also have "\<dots> < of_int (2 ^ 24)" using small by (simp only: of_int_less_iff)
    also have "(of_int (2 ^ 24) :: rat) < pow2 128" by (simp add: pow2_def)
    finally show ?thesis .
  qed
  have "f32_of_rat (of_int (n - 2 ^ 15) / 64) = Fin (of_int (n - 2 ^ 15) / 64)"
    using small b
    by (intro f32_of_rat_exact [where m = "n - 2 ^ 15" and k = "- 6"]) (simp_all add: pow2_def)
  then show ?thesis
    by (simp add: n c s)
qed

subsection \<open>The readers\<close>

text \<open>The rounding does round: an integer of 25 bits and a third lose their last bits. The
  magic number of a \<open>.flo\<close> file is the bit pattern of the bytes \<open>PIEH\<close>.\<close>

lemma f32_of_rat_rounds:
  "f32_of_rat 16777217 = Fin 16777216"
  "f32_of_rat (1 / 3) = Fin (11184811 / 33554432)"
  by code_simp+

lemma f32_decode_magic: "f32_decode (le32 0x50 0x49 0x45 0x48) = Fin flo_magic"
  by (simp add: f32_decode_def le32_def pow2_def flo_magic_def Let_def)

lemma fromfile32_one:
  "fromfile32 1 (b0 # b1 # b2 # b3 # bs) = ([le32 b0 b1 b2 b3], bs)"
  by (simp add: fromfile32_def Let_def)

lemma decode_word:
  "f32_div (f32_sub (f32_of_int (uint x)) (f32_of_int 32768)) (f32_of_int 64)
     = Fin ((of_int (uint x) - 2 ^ 15) / 64)" for x :: "16 word"
proof -
  have "uint x < 2 ^ 16" using uint_bounded [of x] by simp
  then have "\<bar>uint x\<bar> \<le> 2 ^ 16" by simp
  then show ?thesis using decode_exact [of "uint x"] by simp
qed

lemma f32_of_int_word: "f32_of_int (uint x) = Fin (of_int (uint x))" for x :: "16 word"
proof -
  have "uint x < 2 ^ 16" using uint_bounded [of x] by simp
  then have "\<bar>uint x\<bar> < 2 ^ 24" by simp
  then show ?thesis by (rule f32_of_int_exact)
qed

lemma png_read_exact:
  assumes "read_png_16 wd file_name = Inr t" and "3 \<le> length t"
  shows "read_16bits_png_with_flow_and_valid_mask wd file_name =
           Inr (PngFlow (map (map (map (\<lambda>raw. Fin ((of_int (uint raw) - 2 ^ 15) / 64)))) (take 2 t)),
                map (map (\<lambda>raw. Fin (of_int (uint raw)))) (t ! 2))"
  using assms
  apply (simp add: read_16bits_png_with_flow_and_valid_mask_def Let_def take_map decode_word
      del: f32_div.simps f32_sub.simps)
  apply (simp add: f32_of_int_word)
  done

subsection \<open>The functions on the example trees\<close>

lemma kitti_eval: "KittiFlow_init kitti_world ''/d'' ''train'' None = Inr kitti_ds"
  by (simp add: KittiFlow_init_def verify_str_arg_def kitti_globs FlowDataset_init_def kitti_ds_def)

lemma sintel_ds_eval: "Sintel_init sintel_world ''/d'' ''train'' ''clean'' None = Inr sintel_ds"
  by (simp add: sintel_eval sintel_ds_def)

lemma chairs_ds_eval: "FlyingChairs_init chairs_world ''/d'' ''train'' None = Inr chairs_ds"
  by (simp add: chairs_eval chairs_ds_def)

lemma sintel_test_eval:
  "Sintel_init sintel_world ''/d'' ''test'' ''clean'' (Some swap_images) = Inr sintel_test_ds"
  by (simp add: Sintel_init_def sintel_world_def empty_world_def verify_str_arg_def
      Sintel_image_root_def Sintel_flow_root_def path_join_def FlowDataset_init_def
      Sintel_frames_def Sintel_flows_def consecutive_pairs_def Let_def upt_rec sintel_test_ds_def)

lemma sintel_counts:
  "listdir sintel_world (Sintel_image_root ''/d'' ''train'' ''clean'') = Inr [''b'', ''a'']"
  "Sintel_flow_count sintel_world ''/d'' [''b'', ''a''] = 3"
  "Sintel_pair_count sintel_world ''/d'' ''train'' ''clean'' [''b'', ''a''] = 3"
  by (simp_all add: Sintel_flow_count_def Sintel_pair_count_def sintel_world_def empty_world_def
      Sintel_image_root_def Sintel_flow_root_def path_join_def Sintel_frames_def Sintel_flows_def
      consecutive_pairs_def)

lemma bad_magic_eval: "f32_decode (le32 0x50 0x49 0x45 0x49) \<noteq> Fin 202021.25"
  by (simp add: f32_decode_def le32_def pow2_def Let_def)

lemma sintel_open: "open_rb sintel_world ''a/1.flo'' = Inr (0x50 # 0x49 # 0x45 # 0x49 # [1, 0, 0, 0, 1, 0, 0, 0, 0, 0, 0x80, 0x3F, 0, 0, 0, 0xC0])"
  by (simp add: sintel_world_def empty_world_def bad_flo_def)

lemma kitti_png_raw: "read_png_16 kitti_world ''f/0_10.png'' = Inr [[[32832]], [[32640]], [[1]]]"
  by (simp add: kitti_world_def empty_world_def)

lemma kitti_png_raw2: "read_png_16 kitti_world ''f/1_10.png'' = Inr [[[0]], [[65535]], [[2]]]"
  by (simp add: kitti_world_def empty_world_def)

lemma kitti_png_eval:
  "read_16bits_png_with_flow_and_valid_mask kitti_world ''f/0_10.png'' =
     Inr (PngFlow [[[Fin 1]], [[Fin (- 2)]]], [[Fin 1]])"
  using png_read_exact [OF kitti_png_raw] by simp

lemma sintel_flo_eval:
  "read_flo sintel_world ''b/1.flo'' = Inr (FloArray [2, 1, 1] [0x3F800000, 0xC0000000])"
  by (simp add: read_flo_def sintel_world_def empty_world_def good_flo_def fromfile32_def le32_def
     f32_decode_def pow2_def flo_magic_def Let_def reshape_def)

lemma chairs_flo_eval:
  "read_flo chairs_world ''1.flo'' = Inr (FloArray [2, 1, 1] [0x3F800000, 0xC0000000])"
  by (simp add: read_flo_def chairs_world_def empty_world_def good_flo_def fromfile32_def le32_def
     f32_decode_def pow2_def flo_magic_def Let_def reshape_def)

lemma image_open_worlds:
  "image_open kitti_world p = Inr p"
  "image_open sintel_world p = Inr p"
  "image_open chairs_world p = Inr p"
  by (simp_all add: kitti_world_def sintel_world_def chairs_world_def empty_world_def)

lemma getitem_evals:
  "getitem 0 (start kitti_ds kitti_world ts) =
     (Inr (Tuple4 ''k/0_10.png'' ''k/0_11.png'' (Some (PngFlow [[[Fin 1]], [[Fin (- 2)]]])) (Some [[Fin 1]])),
      (start kitti_ds kitti_world ts)\<lparr>opened := [''k/0_10.png'', ''k/0_11.png'', ''f/0_10.png'']\<rparr>)"
  "getitem 0 (start sintel_ds sintel_world ts) =
     (Inr (Tuple3 ''b/1.png'' ''b/2.png'' (Some (FloArray [2, 1, 1] [0x3F800000, 0xC0000000]))),
      (start sintel_ds sintel_world ts)\<lparr>opened := [''b/1.png'', ''b/2.png'', ''b/1.flo'']\<rparr>)"
  "getitem (- 2) (start chairs_ds chairs_world ts) =
     (Inr (Tuple3 ''1_img1.ppm'' ''1_img2.ppm'' (Some (FloArray [2, 1, 1] [0x3F800000, 0xC0000000]))),
      (start chairs_ds chairs_world ts)\<lparr>opened := [''1_img1.ppm'', ''1_img2.ppm'', ''1.flo'']\<rparr>)"
  "getitem 0 (start sintel_test_ds sintel_world ts) =
     (Inr (Tuple3 ''c/2.png'' ''c/1.png'' None),
      (start sintel_test_ds sintel_world ts)\<lparr>opened := [''c/1.png'', ''c/2.png'']\<rparr>)"
     apply (simp add: getitem_def getitem_flow_def read_img_def read_flow_method_def
      apply_transforms_def start_def py_index_def kitti_png_eval kitti_ds_def image_open_worlds)
    apply (simp add: getitem_def getitem_flow_def read_img_def read_flow_method_def
      apply_transforms_def start_def py_index_def sintel_flo_eval sintel_ds_def image_open_worlds)
   apply (simp add: getitem_def getitem_flow_def read_img_def read_flow_method_def
      apply_transforms_def start_def py_index_def chairs_flo_eval chairs_ds_def image_open_worlds)
  apply (simp add: getitem_def getitem_flow_def read_img_def read_flow_method_def
      apply_transforms_def start_def py_index_def sintel_test_ds_def swap_images_def
      image_open_worlds)
  done

text \<open>With a transform that has a state, two calls with the same index can differ.\<close>

lemma getitem_alternate:
  "fst (getitem 0 (start sintel_alternate_ds sintel_world 0)) = Inr (Tuple3 ''c/1.png'' ''c/2.png'' None)"
  "fst (getitem 0 (snd (getitem 0 (start sintel_alternate_ds sintel_world 0))))
     = Inr (Tuple3 ''c/2.png'' ''c/1.png'' None)"
  by (simp_all add: getitem_def getitem_flow_def read_img_def read_flow_method_def
      apply_transforms_def start_def py_index_def sintel_alternate_ds_def alternate_swap_def
      image_open_worlds)

lemma chairs_odd_eval:
  "FlyingChairs_init chairs_world ''/odd'' ''train'' None = Inr chairs_odd_ds"
  "loadtxt chairs_world (split_file ''/odd'') = Inr (Array1 [1, 1])"
  "loadtxt chairs_world (split_file ''/d'') = Inr (Array1 [1, 2, 1])"
  "loadtxt chairs_world (split_file ''/short'') = Inr (Array1 [1, 2])"
  "loadtxt chairs_world (split_file ''/single'') = Inr (Array0 1)"
  "loadtxt chairs_world (split_file ''/wide'') = Inr (Array2 [(1, 1, []), (1, 1, [])])"
  "path_exists chairs_world (split_file ''/d'')"
  "path_exists chairs_world (split_file ''/short'')"
  "path_exists chairs_world (split_file ''/single'')"
  "path_exists chairs_world (split_file ''/wide'')"
  "FlyingChairs_glob_ppm chairs_world ''/d'' =
     [''1_img1.ppm'', ''1_img2.ppm'', ''2_img1.ppm'', ''2_img2.ppm'', ''3_img1.ppm'', ''3_img2.ppm'']"
  "FlyingChairs_glob_flo chairs_world ''/d'' = [''1.flo'', ''2.flo'', ''3.flo'']"
  "FlyingChairs_glob_ppm chairs_world ''/short'' = [''1_img1.ppm'', ''1_img2.ppm'']"
  "FlyingChairs_glob_flo chairs_world ''/short'' = [''1.flo'', ''2.flo'', ''3.flo'']"
  "FlyingChairs_glob_ppm chairs_world ''/single'' = [''1_img1.ppm'', ''1_img2.ppm'']"
  "FlyingChairs_glob_flo chairs_world ''/single'' = [''1.flo'']"
  "FlyingChairs_glob_flo chairs_world ''/wide'' = [''1.flo'', ''2.flo'', ''3.flo'', ''4.flo'', ''5.flo'']"
  by (simp_all add: FlyingChairs_init_def chairs_world_def empty_world_def verify_str_arg_def
      FlyingChairs_glob_ppm_def FlyingChairs_glob_flo_def FlyingChairs_root_def split_file_def
      path_join_def FlowDataset_init_def Let_def upt_rec np_getitem_def np_index_def py_index_def
      retained_def chairs_odd_ds_def)

lemma chairs_wide_eval:
  "FlyingChairs_init chairs_world ''/wide'' ''train'' None =
     Inl (ValueError ''The truth value of an array with more than one element is ambiguous'')"
  by (simp add: FlyingChairs_init_def chairs_world_def empty_world_def verify_str_arg_def
      FlyingChairs_glob_ppm_def FlyingChairs_glob_flo_def FlyingChairs_root_def split_file_def
      path_join_def FlowDataset_init_def Let_def upt_rec np_getitem_def np_index_def
      split_condition_def truth_value_def)

lemma kept_eval:
  "kept_indices ''train'' [1, 2, 1] (Suc (Suc (Suc 0))) = [0, 2]"
  by (simp add: kept_indices_def retained_def upt_rec)

lemma sintel_empty_eval:
  "listdir sintel_world (Sintel_image_root ''/empty'' ''train'' ''clean'') = Inr [''a'', ''e'']"
  "Sintel_init sintel_world ''/empty'' ''train'' ''clean'' None = Inr sintel_empty_ds"
  "Sintel_frames sintel_world (Sintel_image_root ''/empty'' ''train'' ''clean'') ''a''
     = [''a/2.png'', ''a/1.png'', ''a/3.png'']"
  "Sintel_frames sintel_world (Sintel_image_root ''/empty'' ''train'' ''clean'') ''e'' = []"
  by (simp_all add: Sintel_init_def sintel_world_def empty_world_def verify_str_arg_def
      Sintel_image_root_def Sintel_flow_root_def path_join_def FlowDataset_init_def
      Sintel_frames_def Sintel_flows_def consecutive_pairs_def Let_def upt_rec sintel_empty_ds_def)

section \<open>Claims\<close>

text \<open>C5. With \<open>split\<close> one of its two values: when the glob of the \<open>_10\<close> images or the glob
  of the \<open>_11\<close> images is empty, \<open>KittiFlow.__init__\<close> raises \<open>FileNotFoundError\<close>;
  otherwise it returns an instance whose size is the smaller of the two numbers of files, which
  is the number of \<open>_10\<close> files when every one of them has its \<open>_11\<close> file.\<close>

theorem KittiFlow_missing_or_size:
  assumes "split = ''train'' \<or> split = ''test''"
  shows "if Kitti_glob_10 wd root_dir split = [] \<or> Kitti_glob_11 wd root_dir split = []
         then KittiFlow_init wd root_dir split t = Inl (FileNotFoundError Kitti_missing)
         else (\<exists>ds. KittiFlow_init wd root_dir split t = Inr ds
                 \<and> fst (len ds) = min (length (Kitti_glob_10 wd root_dir split))
                                      (length (Kitti_glob_11 wd root_dir split))
                 \<and> (length (Kitti_glob_10 wd root_dir split) \<le> length (Kitti_glob_11 wd root_dir split)
                      \<longrightarrow> fst (len ds) = length (Kitti_glob_10 wd root_dir split)))"
proof -
  have v: "verify_str_arg split ''split'' [''train'', ''test''] = Inr ()"
    using assms by (auto intro: verify_str_arg_ok)
  show ?thesis
    by (simp add: KittiFlow_init_def v Let_def len_def FlowDataset_init_def)
qed

theorem KittiFlow_missing_or_size_witness:
  "KittiFlow_init empty_world ''/d'' ''train'' None = Inl (FileNotFoundError Kitti_missing) \<and>
   (\<exists>ds. KittiFlow_init kitti_world ''/d'' ''train'' None = Inr ds \<and> fst (len ds) = 2)"
  using KittiFlow_missing_or_size [of "''train''" empty_world "''/d''" None]
    KittiFlow_missing_or_size [of "''train''" kitti_world "''/d''" None]
  by (simp add: kitti_globs numeral_2_eq_2)

text \<open>C3. A \<open>.flo\<close> file of at least four bytes whose first four bytes, read as a little-endian
  float32, are not 202021.25 (any other number, an infinity or NaN): \<open>_read_flo\<close> raises
  \<open>ValueError\<close> with the message that the magic number is incorrect, and returns no flow.\<close>

theorem read_flo_bad_magic:
  assumes "open_rb wd file_name = Inr (b0 # b1 # b2 # b3 # bs)"
    and "f32_decode (le32 b0 b1 b2 b3) \<noteq> Fin 202021.25"
  shows "read_flo wd file_name = Inl (ValueError ''Magic number incorrect. Invalid .flo file'')"
  using assms by (simp add: read_flo_def fromfile32_one flo_magic_def)

theorem read_flo_bad_magic_witness:
  "read_flo sintel_world ''a/1.flo'' = Inl (ValueError ''Magic number incorrect. Invalid .flo file'')"
  using read_flo_bad_magic [OF sintel_open bad_magic_eval] .

text \<open>C8. For a PNG that decodes to at least three channels, every element of the flow that
  \<open>_read_16bits_png_with_flow_and_valid_mask\<close> returns is the number \<open>(raw - 2^15) / 64\<close> of the
  16-bit value \<open>raw\<close> of channels 0 and 1: the conversion to float32, the subtraction and the
  division, each rounded to binary32, round nothing away.\<close>

theorem png_flow_decode:
  assumes "read_png_16 wd file_name = Inr t" and "3 \<le> length t"
  shows "\<exists>valid. read_16bits_png_with_flow_and_valid_mask wd file_name =
           Inr (PngFlow (map (map (map (\<lambda>raw. Fin ((of_int (uint raw) - 2 ^ 15) / 64)))) (take 2 t)), valid)"
  using assms
  by (simp add: read_16bits_png_with_flow_and_valid_mask_def Let_def take_map decode_word
      del: f32_div.simps f32_sub.simps)

theorem png_flow_decode_witness:
  "\<exists>valid. read_16bits_png_with_flow_and_valid_mask kitti_world ''f/0_10.png'' =
     Inr (PngFlow [[[Fin 1]], [[Fin (- 2)]]], valid)"
  using png_flow_decode [OF kitti_png_raw] by simp

text \<open>C2. On a PNG whose channel 2 has the raw value 2 at its pixel, the mask that
  \<open>_read_16bits_png_with_flow_and_valid_mask\<close> returns has the element 2.0, which is neither 0
  nor 1: the reader returns channel 2 as it was converted to float32.\<close>

theorem png_valid_raw_value:
  "read_16bits_png_with_flow_and_valid_mask kitti_world ''f/1_10.png'' =
     Inr (PngFlow [[[Fin (- 512)]], [[Fin (32767 / 64)]]], [[Fin 2]])"
  using png_read_exact [OF kitti_png_raw2] by simp

text \<open>C4. A sample that \<open>__getitem__\<close> returns has four components on an instance built by
  \<open>KittiFlow.__init__\<close> and three on one built by \<open>Sintel.__init__\<close> or
  \<open>FlyingChairs.__init__\<close>, for every split, every transform, every world and every index.\<close>

theorem getitem_arity:
  "(KittiFlow_init wd root_dir split t = Inr ds \<longrightarrow>
      (\<forall>s index r. self s = ds \<longrightarrow> fst (getitem index s) = Inr r \<longrightarrow> arity r = 4)) \<and>
   (Sintel_init wd root_dir split pass_name t = Inr ds \<longrightarrow>
      (\<forall>s index r. self s = ds \<longrightarrow> fst (getitem index s) = Inr r \<longrightarrow> arity r = 3)) \<and>
   (FlyingChairs_init wd root_dir split t = Inr ds \<longrightarrow>
      (\<forall>s index r. self s = ds \<longrightarrow> fst (getitem index s) = Inr r \<longrightarrow> arity r = 3))"
  by (auto dest!: getitem_arity_flag
      dest: KittiFlow_init_variant Sintel_init_variant FlyingChairs_init_variant)

theorem getitem_arity_witness:
  "(\<exists>r. fst (getitem 0 (start kitti_ds kitti_world 0)) = Inr r \<and> arity r = 4) \<and>
   (\<exists>r. fst (getitem 0 (start sintel_ds sintel_world 0)) = Inr r \<and> arity r = 3) \<and>
   (\<exists>r. fst (getitem 0 (start sintel_test_ds sintel_world 0)) = Inr r \<and> arity r = 3) \<and>
   (\<exists>r. fst (getitem (- 2) (start chairs_ds chairs_world 0)) = Inr r \<and> arity r = 3)"
  using getitem_arity [where wd = kitti_world and root_dir = "''/d''" and split = "''train''"
      and t = None and ds = kitti_ds]
    getitem_arity [where wd = sintel_world and root_dir = "''/d''" and split = "''train''"
      and pass_name = "''clean''" and t = None and ds = sintel_ds]
    getitem_arity [where wd = sintel_world and root_dir = "''/d''" and split = "''test''"
      and pass_name = "''clean''" and t = "Some swap_images" and ds = sintel_test_ds]
    getitem_arity [where wd = chairs_world and root_dir = "''/d''" and split = "''train''"
      and t = None and ds = chairs_ds]
  by (simp add: kitti_eval sintel_ds_eval sintel_test_eval chairs_ds_eval getitem_evals)

text \<open>C9. \<open>__getitem__\<close> runs in a state: the instance, the files, the state of the
  transform and the files opened so far. On an instance without transform, a call leaves the
  instance and the files as they were, although it opens files; and a second call with the
  same index, in the state that the first call left, returns the same result as the first and
  leaves the instance as it was again. \<open>__len__\<close> changes nothing. (With a transform that has
  a state the results can differ: \<open>getitem_alternate\<close>.)\<close>

theorem getitem_deterministic:
  assumes "transforms (self s) = None" and "getitem index s = (r, s')"
  shows "self s' = self s \<and> disk s' = disk s \<and>
         fst (getitem index s') = r \<and> self (snd (getitem index s')) = self s \<and>
         snd (len (self s)) = self s"
proof -
  have s': "s' = snd (getitem index s)" and r: "r = fst (getitem index s)"
    using assms(2) by simp_all
  have self: "self s' = self s" and disk: "disk s' = disk s"
    by (simp_all add: s')
  have ts: "transform_state s' = transform_state s"
    using assms(1) by (simp add: s' getitem_transform_state)
  have "fst (getitem index s') = fst (getitem index s)"
    using self disk ts by (rule getitem_result)
  then show ?thesis
    using self disk by (simp add: r len_def)
qed

theorem getitem_deterministic_witness:
  "fst (getitem 0 (start sintel_ds sintel_world 0)) =
     Inr (Tuple3 ''b/1.png'' ''b/2.png'' (Some (FloArray [2, 1, 1] [0x3F800000, 0xC0000000]))) \<and>
   opened (snd (getitem 0 (start sintel_ds sintel_world 0))) = [''b/1.png'', ''b/2.png'', ''b/1.flo''] \<and>
   fst (getitem 0 (snd (getitem 0 (start sintel_ds sintel_world 0)))) =
     Inr (Tuple3 ''b/1.png'' ''b/2.png'' (Some (FloArray [2, 1, 1] [0x3F800000, 0xC0000000]))) \<and>
   self (snd (getitem 0 (snd (getitem 0 (start sintel_ds sintel_world 0))))) = sintel_ds"
  using getitem_deterministic [of "start sintel_ds sintel_world 0" 0
      "fst (getitem 0 (start sintel_ds sintel_world 0))"
      "snd (getitem 0 (start sintel_ds sintel_world 0))"]
  by (simp add: getitem_evals) (simp add: start_def sintel_ds_def)

text \<open>C1, as stated, fails: on a Sintel tree with one scene of three frames and one \<open>.flo\<close>
  file, the constructor returns an instance with two image pairs and one flow path.\<close>

theorem flow_invariant_counterexample:
  "Sintel_init sintel_world ''/odd'' ''train'' ''clean'' None = Inr sintel_odd_ds
     \<and> \<not> flow_invariant sintel_odd_ds"
  by (simp add: sintel_odd_eval sintel_odd_ds_def flow_invariant_def)

text \<open>C1, amended. An instance built by \<open>FlyingChairs.__init__\<close> has no flow path or as many
  as image pairs. One built by \<open>Sintel.__init__\<close> has, exactly when the split is not
  \<open>train\<close>, or the scenes hold no \<open>.flo\<close> file, or they hold as many as there are pairs of
  consecutive frames. One built by \<open>KittiFlow.__init__\<close> has, exactly when the split is not
  \<open>train\<close>, or \<open>flow_occ\<close> holds no \<open>_10\<close> file, or it holds as many as the smaller number of
  \<open>_10\<close> and \<open>_11\<close> images. \<open>__getitem__\<close> and \<open>__len__\<close>, in whatever state they run, leave
  the instance as it was.\<close>

theorem flow_invariant_constructed:
  "(FlyingChairs_init wd root_dir split t = Inr ds \<longrightarrow> flow_invariant ds) \<and>
   (Sintel_init wd root_dir split pass_name t = Inr ds \<and>
      listdir wd (Sintel_image_root root_dir split pass_name) = Inr scenes \<longrightarrow>
      (flow_invariant ds \<longleftrightarrow>
         (split = ''train'' \<longrightarrow> Sintel_flow_count wd root_dir scenes = 0 \<or>
            Sintel_flow_count wd root_dir scenes =
              Sintel_pair_count wd root_dir split pass_name scenes))) \<and>
   (KittiFlow_init wd root_dir split t = Inr ds \<longrightarrow>
      (flow_invariant ds \<longleftrightarrow>
         (split = ''train'' \<longrightarrow> Kitti_glob_flow wd root_dir split = [] \<or>
            length (Kitti_glob_flow wd root_dir split) =
              min (length (Kitti_glob_10 wd root_dir split)) (length (Kitti_glob_11 wd root_dir split))))) \<and>
   self (snd (getitem index s)) = self s \<and> snd (len ds) = ds"
proof -
  have fc: "FlyingChairs_init wd root_dir split t = Inr ds \<longrightarrow> flow_invariant ds"
    by (simp add: flow_invariant_def FlyingChairs_init_lengths)
  have si: "Sintel_init wd root_dir split pass_name t = Inr ds \<and>
      listdir wd (Sintel_image_root root_dir split pass_name) = Inr scenes \<longrightarrow>
      (flow_invariant ds \<longleftrightarrow>
         (split = ''train'' \<longrightarrow> Sintel_flow_count wd root_dir scenes = 0 \<or>
            Sintel_flow_count wd root_dir scenes =
              Sintel_pair_count wd root_dir split pass_name scenes))"
  proof
    assume a: "Sintel_init wd root_dir split pass_name t = Inr ds \<and>
      listdir wd (Sintel_image_root root_dir split pass_name) = Inr scenes"
    have e: "flow_list ds = [] \<longleftrightarrow> length (flow_list ds) = 0" by simp
    show "flow_invariant ds \<longleftrightarrow>
         (split = ''train'' \<longrightarrow> Sintel_flow_count wd root_dir scenes = 0 \<or>
            Sintel_flow_count wd root_dir scenes =
              Sintel_pair_count wd root_dir split pass_name scenes)"
      unfolding flow_invariant_def e
      using Sintel_init_lists [of wd root_dir split pass_name t ds scenes] a
      by simp
  qed
  have ki: "KittiFlow_init wd root_dir split t = Inr ds \<longrightarrow>
      (flow_invariant ds \<longleftrightarrow>
         (split = ''train'' \<longrightarrow> Kitti_glob_flow wd root_dir split = [] \<or>
            length (Kitti_glob_flow wd root_dir split) =
              min (length (Kitti_glob_10 wd root_dir split)) (length (Kitti_glob_11 wd root_dir split))))"
  proof
    assume a: "KittiFlow_init wd root_dir split t = Inr ds"
    have e: "flow_list ds = [] \<longleftrightarrow> length (flow_list ds) = 0" by simp
    show "flow_invariant ds \<longleftrightarrow>
         (split = ''train'' \<longrightarrow> Kitti_glob_flow wd root_dir split = [] \<or>
            length (Kitti_glob_flow wd root_dir split) =
              min (length (Kitti_glob_10 wd root_dir split)) (length (Kitti_glob_11 wd root_dir split)))"
      unfolding flow_invariant_def e
      using KittiFlow_init_lists [OF a]
      by simp
  qed
  show ?thesis
    using fc si ki by (simp add: len_def)
qed

theorem flow_invariant_constructed_witness:
  "flow_invariant chairs_ds \<and> flow_invariant sintel_ds \<and> flow_invariant kitti_ds
     \<and> self (snd (getitem 0 (start sintel_ds sintel_world 0))) = sintel_ds
     \<and> snd (len kitti_ds) = kitti_ds"
  using flow_invariant_constructed [where wd = chairs_world and root_dir = "''/d''"
      and split = "''train''" and t = None and ds = chairs_ds]
    flow_invariant_constructed [where wd = sintel_world and root_dir = "''/d''"
      and split = "''train''" and pass_name = "''clean''" and t = None and ds = sintel_ds
      and scenes = "[''b'', ''a'']" and index = 0 and s = "start sintel_ds sintel_world 0"]
    flow_invariant_constructed [where wd = kitti_world and root_dir = "''/d''"
      and split = "''train''" and t = None and ds = kitti_ds]
  by (simp add: chairs_ds_eval sintel_ds_eval kitti_eval sintel_counts kitti_globs)
    (simp add: start_def)

text \<open>C7, as stated, fails: on a Sintel tree with a scene of three frames and a scene directory
  without frames, the size is 2, and the sum of \<open>n - 1\<close> over the two scenes is
  \<open>(3 - 1) + (0 - 1) = 1\<close>.\<close>

theorem Sintel_size_counterexample:
  "listdir sintel_world (Sintel_image_root ''/empty'' ''train'' ''clean'') = Inr [''a'', ''e''] \<and>
   Sintel_init sintel_world ''/empty'' ''train'' ''clean'' None = Inr sintel_empty_ds \<and>
   int (fst (len sintel_empty_ds)) \<noteq>
     (int (length (Sintel_frames sintel_world (Sintel_image_root ''/empty'' ''train'' ''clean'') ''a'')) - 1)
     + (int (length (Sintel_frames sintel_world (Sintel_image_root ''/empty'' ''train'' ''clean'') ''e'')) - 1)"
  by (simp add: sintel_empty_eval) (simp add: sintel_empty_ds_def len_def)

text \<open>C7, amended. With valid arguments and a directory of scenes that can be listed,
  \<open>Sintel.__init__\<close> returns an instance whose image pairs are, scene after scene in the order
  of the listing, the pairs of the frames \<open>i\<close> and \<open>i + 1\<close> of the sorted frames, for \<open>i\<close> from 0
  to \<open>count - 2\<close>. A scene of \<open>n\<close> frames contributes \<open>max (n - 1, 0)\<close> pairs: \<open>n - 1\<close> when it has
  a frame, none when it has not; the size is the sum of these numbers.\<close>

theorem Sintel_pairing:
  assumes "split = ''train'' \<or> split = ''test''"
    and "pass_name = ''clean'' \<or> pass_name = ''final''"
    and "listdir wd (Sintel_image_root root_dir split pass_name) = Inr scenes"
  shows "\<exists>ds. Sintel_init wd root_dir split pass_name t = Inr ds \<and>
     image_list ds = concat (map (\<lambda>scene. consecutive_pairs
        (scene_frames wd root_dir split pass_name scene)) scenes) \<and>
     (\<forall>scene. sorted (scene_frames wd root_dir split pass_name scene) \<and>
        consecutive_pairs (scene_frames wd root_dir split pass_name scene) =
          map (\<lambda>i. (scene_frames wd root_dir split pass_name scene ! i,
                    scene_frames wd root_dir split pass_name scene ! (i + 1)))
            [0 ..< length (scene_frames wd root_dir split pass_name scene) - 1] \<and>
        int (length (consecutive_pairs (scene_frames wd root_dir split pass_name scene))) =
          max 0 (int (length (Sintel_frames wd (Sintel_image_root root_dir split pass_name) scene)) - 1)) \<and>
     int (fst (len ds)) =
       (\<Sum>scene\<leftarrow>scenes.
          max 0 (int (length (Sintel_frames wd (Sintel_image_root root_dir split pass_name) scene)) - 1))"
proof -
  let ?ds = "Sintel_scenes wd (Sintel_image_root root_dir split pass_name)
               (Sintel_flow_root root_dir) split scenes (FlowDataset_init Sintel t)"
  have init: "Sintel_init wd root_dir split pass_name t = Inr ?ds"
    using assms by (rule Sintel_init_ok)
  have il: "image_list ?ds = concat (map (\<lambda>scene. consecutive_pairs
        (scene_frames wd root_dir split pass_name scene)) scenes)"
    by (simp add: Sintel_scenes_image_list FlowDataset_init_def scene_frames_def)
  have sz: "int (fst (len ?ds)) =
       (\<Sum>scene\<leftarrow>scenes.
          max 0 (int (length (Sintel_frames wd (Sintel_image_root root_dir split pass_name) scene)) - 1))"
    by (simp add: len_def il length_concat comp_def int_sum_list_length
        int_length_consecutive_pairs scene_frames_def)
  have per: "\<forall>scene. sorted (scene_frames wd root_dir split pass_name scene) \<and>
        consecutive_pairs (scene_frames wd root_dir split pass_name scene) =
          map (\<lambda>i. (scene_frames wd root_dir split pass_name scene ! i,
                    scene_frames wd root_dir split pass_name scene ! (i + 1)))
            [0 ..< length (scene_frames wd root_dir split pass_name scene) - 1] \<and>
        int (length (consecutive_pairs (scene_frames wd root_dir split pass_name scene))) =
          max 0 (int (length (Sintel_frames wd (Sintel_image_root root_dir split pass_name) scene)) - 1)"
  proof (intro allI conjI)
    fix scene
    show "sorted (scene_frames wd root_dir split pass_name scene)"
      by (simp add: scene_frames_def)
    show "consecutive_pairs (scene_frames wd root_dir split pass_name scene) =
          map (\<lambda>i. (scene_frames wd root_dir split pass_name scene ! i,
                    scene_frames wd root_dir split pass_name scene ! (i + 1)))
            [0 ..< length (scene_frames wd root_dir split pass_name scene) - 1]"
      by (rule consecutive_pairs_nth)
    show "int (length (consecutive_pairs (scene_frames wd root_dir split pass_name scene))) =
          max 0 (int (length (Sintel_frames wd (Sintel_image_root root_dir split pass_name) scene)) - 1)"
      by (simp only: int_length_consecutive_pairs scene_frames_def length_sort)
  qed
  show ?thesis
    using init il sz per by blast
qed

theorem Sintel_pairing_witness:
  "\<exists>ds. Sintel_init sintel_world ''/empty'' ''train'' ''clean'' (None :: (path, nat) transform option) = Inr ds \<and>
     image_list ds = [(''a/1.png'', ''a/2.png''), (''a/2.png'', ''a/3.png'')] \<and>
     int (fst (len ds)) = 2"
  using Sintel_pairing [of "''train''" "''clean''" sintel_world "''/empty''" "[''a'', ''e'']"
      "None :: (path, nat) transform option"]
  by (simp add: sintel_empty_eval) (simp add: sintel_empty_ds_def len_def)

text \<open>C6, as stated, fails: with one \<open>.flo\<close> file and a split file of the two entries 1 and 1,
  the \<open>train\<close> instance retains one entry, and the split file has two entries 1.\<close>

theorem FlyingChairs_count_counterexample:
  "FlyingChairs_init chairs_world ''/odd'' ''train'' None = Inr chairs_odd_ds \<and>
   loadtxt chairs_world (split_file ''/odd'') = Inr (Array1 [1, 1]) \<and>
   length (flow_list chairs_odd_ds) \<noteq> length (filter (retained ''train'') [1, 1])"
  by (simp add: chairs_odd_eval) (simp add: chairs_odd_ds_def retained_def)

text \<open>C6, amended. When \<open>FlyingChairs.__init__\<close> returns an instance, the split file has at
  least one entry per \<open>.flo\<close> file; the retained indices are, in increasing order, the
  positions \<open>i\<close> of the sorted \<open>.flo\<close> files whose entry is 1 for \<open>split = train\<close> and 2 for
  \<open>split = val\<close>; the flow paths are the files at these positions and the image pairs are
  the sorted images \<open>2 * i\<close> and \<open>2 * i + 1\<close>; the number of retained entries is the number
  of matching entries among the first \<open>len(flows)\<close> entries of the split file.\<close>

theorem FlyingChairs_retained:
  assumes "FlyingChairs_init wd root_dir split t = Inr ds"
  shows "\<exists>arr.
     loadtxt wd (split_file root_dir) = Inr arr \<and>
     (let images = sort (FlyingChairs_glob_ppm wd root_dir);
          flows = sort (FlyingChairs_glob_flo wd root_dir);
          split_list = array_entries arr;
          kept = kept_indices split split_list (length flows)
      in (flows \<noteq> [] \<longrightarrow> arr = Array1 split_list) \<and>
         flow_list ds = map (\<lambda>i. flows ! i) kept \<and>
         image_list ds = map (\<lambda>i. (images ! (2 * i), images ! (2 * i + 1))) kept \<and>
         (\<forall>i \<in> set kept. i < length split_list \<and> 2 * i + 1 < length images \<and>
            ((split = ''train'' \<and> split_list ! i = 1) \<or> (split = ''val'' \<and> split_list ! i = 2))) \<and>
         length flows \<le> length split_list \<and>
         length (flow_list ds) = length (filter (retained split) (take (length flows) split_list)))"
proof -
  define images where "images = sort (FlyingChairs_glob_ppm wd root_dir)"
  define flows where "flows = sort (FlyingChairs_glob_flo wd root_dir)"
  have split: "split = ''train'' \<or> split = ''val''"
    using assms by (rule FlyingChairs_init_split)
  from assms obtain arr where arr: "loadtxt wd (split_file root_dir) = Inr arr"
    and loop: "FlyingChairs_loop split arr images flows [0 ..< length flows]
                 (FlowDataset_init FlyingChairs t) = Inr ds"
    by (auto simp: FlyingChairs_init_def Let_def images_def flows_def split: sum.splits if_splits)
  show ?thesis
  proof (cases "flows = []")
    case True
    with loop have "ds = FlowDataset_init FlyingChairs t" by simp
    then show ?thesis
      using arr True
      by (simp add: Let_def flows_def [symmetric] FlowDataset_init_def kept_indices_def)
  next
    case False
    then have "[0 ..< length flows] \<noteq> []" by simp
    with loop split obtain sl where sl: "arr = Array1 sl"
      using FlyingChairs_loop_Inr_shape by blast
    have sub: "set [0 ..< length flows] \<subseteq> {..< length flows}" by auto
    have ok: "\<forall>i \<in> set [0 ..< length flows]. index_ok split sl images flows i"
      using loop sub unfolding sl by (rule FlyingChairs_loop_Inr_ok)
    have len: "length flows \<le> length sl"
      using ok by (rule all_index_ok_length)
    have ds: "ds = (FlowDataset_init FlyingChairs t)
        \<lparr>flow_list := map (\<lambda>i. flows ! i) (kept_indices split sl (length flows)),
         image_list := map (\<lambda>i. (images ! (2 * i), images ! (2 * i + 1)))
                         (kept_indices split sl (length flows))\<rparr>"
      using FlyingChairs_loop_ok [OF ok, of "FlowDataset_init FlyingChairs t"] loop
      by (simp add: kept_indices_def FlowDataset_init_def sl)
    have kept: "\<forall>i \<in> set (kept_indices split sl (length flows)).
        i < length sl \<and> 2 * i + 1 < length images \<and>
        ((split = ''train'' \<and> sl ! i = 1) \<or> (split = ''val'' \<and> sl ! i = 2))"
      using ok by (auto simp: kept_indices_def index_ok_def retained_def)
    have cnt: "length (kept_indices split sl (length flows))
                 = length (filter (retained split) (take (length flows) sl))"
      unfolding kept_indices_def using len by (rule filter_nth_take)
    show ?thesis
      using arr kept len cnt
      by (simp add: Let_def images_def [symmetric] flows_def [symmetric] ds FlowDataset_init_def
          sl array_entries_def)
  qed
qed

theorem FlyingChairs_retained_witness:
  "flow_list chairs_ds = map (\<lambda>i. [''1.flo'', ''2.flo'', ''3.flo''] ! i) [0, 2] \<and>
   length (flow_list chairs_ds) = length (filter (retained ''train'') [1, 2, 1])"
  using FlyingChairs_retained [OF chairs_ds_eval]
  by (simp add: chairs_odd_eval Let_def kept_eval retained_def array_entries_def)

text \<open>C10, as stated, fails: with five \<open>.flo\<close> files and a split file of two rows and two
  columns, which has four entries, the constructor raises \<open>ValueError\<close>, on the truth value of
  the first row, and no indexing error.\<close>

theorem FlyingChairs_wide_counterexample:
  "loadtxt chairs_world (split_file ''/wide'') = Inr (Array2 [(1, 1, []), (1, 1, [])]) \<and>
   length (array_entries (Array2 [(1, 1, []), (1, 1, [])]))
     < length (FlyingChairs_glob_flo chairs_world ''/wide'') \<and>
   FlyingChairs_init chairs_world ''/wide'' ''train'' None =
     Inl (ValueError ''The truth value of an array with more than one element is ambiguous'')"
  by (simp add: chairs_odd_eval chairs_wide_eval array_entries_def)

text \<open>C10, amended. With a valid split, an existing split file and the array that
  \<open>np.loadtxt\<close> makes of it: \<open>FlyingChairs.__init__\<close> returns an instance only when the split
  file has at least as many entries as there are \<open>.flo\<close> files and the sorted images have at
  least \<open>2 * i + 2\<close> entries for every retained \<open>i\<close>. For a one-dimensional array it returns an
  instance exactly then, and raises \<open>IndexError\<close> otherwise. For a split file of one value, or
  of several rows and columns, it returns an instance only when there is no \<open>.flo\<close> file: it
  raises \<open>IndexError\<close> on the single value, and on rows \<open>ValueError\<close> or, when there is no row,
  \<open>IndexError\<close>.\<close>

theorem FlyingChairs_index_precondition:
  assumes "split = ''train'' \<or> split = ''val''"
    and "path_exists wd (split_file root_dir)"
    and "loadtxt wd (split_file root_dir) = Inr arr"
  shows "let images = sort (FlyingChairs_glob_ppm wd root_dir);
             flows = sort (FlyingChairs_glob_flo wd root_dir)
         in ((\<exists>ds. FlyingChairs_init wd root_dir split t = Inr ds) \<longrightarrow>
               length flows \<le> length (array_entries arr) \<and>
               (\<forall>i < length flows. retained split (array_entries arr ! i) \<longrightarrow>
                  2 * i + 2 \<le> length images)) \<and>
            (case arr of
               Array1 split_list \<Rightarrow>
                 (if length flows \<le> length split_list \<and>
                     (\<forall>i < length flows. retained split (split_list ! i) \<longrightarrow>
                        2 * i + 2 \<le> length images)
                  then \<exists>ds. FlyingChairs_init wd root_dir split t = Inr ds
                  else \<exists>msg. FlyingChairs_init wd root_dir split t = Inl (IndexError msg))
             | Array0 v \<Rightarrow>
                 (if flows = [] then \<exists>ds. FlyingChairs_init wd root_dir split t = Inr ds
                  else \<exists>msg. FlyingChairs_init wd root_dir split t = Inl (IndexError msg))
             | Array2 rows \<Rightarrow>
                 (if flows = [] then \<exists>ds. FlyingChairs_init wd root_dir split t = Inr ds
                  else if rows = []
                    then \<exists>msg. FlyingChairs_init wd root_dir split t = Inl (IndexError msg)
                    else \<exists>msg. FlyingChairs_init wd root_dir split t = Inl (ValueError msg)))"
proof -
  define images where "images = sort (FlyingChairs_glob_ppm wd root_dir)"
  define flows where "flows = sort (FlyingChairs_glob_flo wd root_dir)"
  define ds0 :: "('a, 'b) dataset" where "ds0 = FlowDataset_init FlyingChairs t"
  have v: "verify_str_arg split ''split'' [''train'', ''val''] = Inr ()"
    using assms(1) by (auto intro: verify_str_arg_ok)
  have init: "FlyingChairs_init wd root_dir split t =
      FlyingChairs_loop split arr images flows [0 ..< length flows] ds0"
    using assms(2,3) by (simp add: FlyingChairs_init_def v Let_def images_def flows_def ds0_def)
  have upt: "[0 ..< length flows] = 0 # [1 ..< length flows]" if "flows \<noteq> []"
    using that by (simp add: upt_conv_Cons)
  have a1: "if length flows \<le> length sl \<and>
               (\<forall>i < length flows. retained split (sl ! i) \<longrightarrow> 2 * i + 2 \<le> length images)
            then \<exists>ds. FlyingChairs_init wd root_dir split t = Inr ds
            else \<exists>msg. FlyingChairs_init wd root_dir split t = Inl (IndexError msg)"
    if sl: "arr = Array1 sl" for sl
  proof -
    have iff: "(length flows \<le> length sl \<and>
                 (\<forall>i < length flows. retained split (sl ! i) \<longrightarrow> 2 * i + 2 \<le> length images))
               \<longleftrightarrow> (\<forall>i \<in> set [0 ..< length flows]. index_ok split sl images flows i)"
    proof
      assume "length flows \<le> length sl \<and>
        (\<forall>i < length flows. retained split (sl ! i) \<longrightarrow> 2 * i + 2 \<le> length images)"
      then show "\<forall>i \<in> set [0 ..< length flows]. index_ok split sl images flows i"
        by (auto simp: index_ok_def)
    next
      assume a: "\<forall>i \<in> set [0 ..< length flows]. index_ok split sl images flows i"
      then have "length flows \<le> length sl" by (rule all_index_ok_length)
      moreover have "\<forall>i < length flows. retained split (sl ! i) \<longrightarrow> 2 * i + 2 \<le> length images"
        using a by (auto simp: index_ok_def)
      ultimately show "length flows \<le> length sl \<and>
        (\<forall>i < length flows. retained split (sl ! i) \<longrightarrow> 2 * i + 2 \<le> length images)"
        by simp
    qed
    show ?thesis
    proof (cases "\<forall>i \<in> set [0 ..< length flows]. index_ok split sl images flows i")
      case True
      then show ?thesis
        using FlyingChairs_loop_ok [OF True, of ds0] iff
        by (simp add: init sl)
    next
      case False
      then have "\<exists>i \<in> set [0 ..< length flows]. \<not> index_ok split sl images flows i"
        by simp
      moreover have "set [0 ..< length flows] \<subseteq> {..< length flows}" by auto
      ultimately have "\<exists>msg. FlyingChairs_loop split (Array1 sl) images flows [0 ..< length flows]
          ds0 = Inl (IndexError msg)"
        by (rule FlyingChairs_loop_fail)
      then have "\<exists>msg. FlyingChairs_init wd root_dir split t = Inl (IndexError msg)"
        by (simp add: init sl)
      moreover have "\<not> (length flows \<le> length sl \<and>
          (\<forall>i < length flows. retained split (sl ! i) \<longrightarrow> 2 * i + 2 \<le> length images))"
        using False by (simp only: iff not_False_eq_True)
      ultimately show ?thesis
        by (simp only: if_False)
    qed
  qed
  have a0: "if flows = [] then \<exists>ds. FlyingChairs_init wd root_dir split t = Inr ds
            else \<exists>msg. FlyingChairs_init wd root_dir split t = Inl (IndexError msg)"
    if "arr = Array0 v" for v
    using that upt by (auto simp: init FlyingChairs_loop_Array0 simp del: FlyingChairs_loop.simps(2))
  have a2: "if flows = [] then \<exists>ds. FlyingChairs_init wd root_dir split t = Inr ds
            else if rows = []
              then \<exists>msg. FlyingChairs_init wd root_dir split t = Inl (IndexError msg)
              else \<exists>msg. FlyingChairs_init wd root_dir split t = Inl (ValueError msg)"
    if "arr = Array2 rows" for rows
    using that upt assms(1)
    by (auto simp: init FlyingChairs_loop_Array2 simp del: FlyingChairs_loop.simps(2))
  have cases: "case arr of
               Array1 split_list \<Rightarrow>
                 (if length flows \<le> length split_list \<and>
                     (\<forall>i < length flows. retained split (split_list ! i) \<longrightarrow>
                        2 * i + 2 \<le> length images)
                  then \<exists>ds. FlyingChairs_init wd root_dir split t = Inr ds
                  else \<exists>msg. FlyingChairs_init wd root_dir split t = Inl (IndexError msg))
             | Array0 v \<Rightarrow>
                 (if flows = [] then \<exists>ds. FlyingChairs_init wd root_dir split t = Inr ds
                  else \<exists>msg. FlyingChairs_init wd root_dir split t = Inl (IndexError msg))
             | Array2 rows \<Rightarrow>
                 (if flows = [] then \<exists>ds. FlyingChairs_init wd root_dir split t = Inr ds
                  else if rows = []
                    then \<exists>msg. FlyingChairs_init wd root_dir split t = Inl (IndexError msg)
                    else \<exists>msg. FlyingChairs_init wd root_dir split t = Inl (ValueError msg))"
    using a0 a1 a2 by (cases arr) simp_all
  have nec: "(\<exists>ds. FlyingChairs_init wd root_dir split t = Inr ds) \<longrightarrow>
               length flows \<le> length (array_entries arr) \<and>
               (\<forall>i < length flows. retained split (array_entries arr ! i) \<longrightarrow>
                  2 * i + 2 \<le> length images)"
  proof (cases arr)
    case (Array0 v)
    with a0 [OF Array0] show ?thesis by (auto split: if_splits)
  next
    case (Array1 sl)
    with a1 [OF Array1] show ?thesis by (auto simp: array_entries_def split: if_splits)
  next
    case (Array2 rows)
    with a2 [OF Array2] show ?thesis by (auto split: if_splits)
  qed
  show ?thesis
    unfolding Let_def images_def [symmetric] flows_def [symmetric]
    using nec cases by (rule conjI)
qed

theorem FlyingChairs_index_precondition_witness:
  "(\<exists>ds. FlyingChairs_init chairs_world ''/d'' ''train'' (None :: (path, nat) transform option) = Inr ds) \<and>
   (\<exists>msg. FlyingChairs_init chairs_world ''/short'' ''train'' (None :: (path, nat) transform option) = Inl (IndexError msg)) \<and>
   (\<exists>msg. FlyingChairs_init chairs_world ''/single'' ''train'' (None :: (path, nat) transform option) = Inl (IndexError msg)) \<and>
   (\<exists>msg. FlyingChairs_init chairs_world ''/wide'' ''train'' (None :: (path, nat) transform option) = Inl (ValueError msg))"
  using FlyingChairs_index_precondition [of "''train''" chairs_world "''/d''" "Array1 [1, 2, 1]"
      "None :: (path, nat) transform option"]
    FlyingChairs_index_precondition [of "''train''" chairs_world "''/short''" "Array1 [1, 2]"
      "None :: (path, nat) transform option"]
    FlyingChairs_index_precondition [of "''train''" chairs_world "''/single''" "Array0 1"
      "None :: (path, nat) transform option"]
    FlyingChairs_index_precondition [of "''train''" chairs_world "''/wide''"
      "Array2 [(1, 1, []), (1, 1, [])]" "None :: (path, nat) transform option"]
  by (simp add: chairs_odd_eval Let_def retained_def All_less_Suc)

end
